theory Spec2Isabelle
  imports Complex_Main "HOL-Library.AList" "HOL-Library.Sublist"
begin

section \<open>Values of the host language\<close>

text \<open>
  The checkout core is TypeScript. Three kinds of host values reach the code that is
  verified here: parsed JSON bodies, \<^verbatim>\<open>Date\<close> objects and the \<^verbatim>\<open>Result\<close> wrapper of
  \<^verbatim>\<open>types.ts\<close> (\<^verbatim>\<open>success(data)\<close> / \<^verbatim>\<open>failure({code, message})\<close>).
\<close>

text \<open>
  A value produced by \<^verbatim>\<open>response.json()\<close>. An object is the list of its own properties,
  keys distinct, as \<^verbatim>\<open>JSON.parse\<close> leaves them.
\<close>

datatype jsval =
    Undefined
  | Null
  | Bool bool
  | Num real
  | Str string
  | Arr "jsval list"
  | Obj "(string \<times> jsval) list"

text \<open>Truthiness (\<^verbatim>\<open>ToBoolean\<close>); a JSON number is never NaN.\<close>

fun truthy :: "jsval \<Rightarrow> bool" where
  "truthy Undefined = False"
| "truthy Null = False"
| "truthy (Bool b) = b"
| "truthy (Num x) = (x \<noteq> 0)"
| "truthy (Str s) = (s \<noteq> [])"
| "truthy (Arr xs) = True"
| "truthy (Obj fs) = True"

text \<open>\<^verbatim>\<open>a || b\<close>\<close>

definition js_or :: "jsval \<Rightarrow> jsval \<Rightarrow> jsval" where
  "js_or a b = (if truthy a then a else b)"

text \<open>
  Property access \<^verbatim>\<open>data.name\<close>, for the names the status poll reads (\<^verbatim>\<open>settled\<close>,
  \<^verbatim>\<open>paid\<close>, \<^verbatim>\<open>status\<close>, \<^verbatim>\<open>expired\<close>, \<^verbatim>\<open>pending\<close>, \<^verbatim>\<open>settledAt\<close>, \<^verbatim>\<open>paidAt\<close>,
  \<^verbatim>\<open>eurCredited\<close>): on \<^verbatim>\<open>null\<close> and \<^verbatim>\<open>undefined\<close> it throws a TypeError (\<open>None\<close>); a
  primitive or an array has none of these names; an object yields its own property or
  \<^verbatim>\<open>undefined\<close>.
\<close>

fun props :: "jsval \<Rightarrow> (string \<Rightarrow> jsval) option" where
  "props Undefined = None"
| "props Null = None"
| "props (Obj fs) = Some (\<lambda>k. case map_of fs k of None \<Rightarrow> Undefined | Some v \<Rightarrow> v)"
| "props v = Some (\<lambda>k. Undefined)"

text \<open>
  A \<^verbatim>\<open>Date\<close> holds a time value in milliseconds or is an Invalid Date (time value NaN).
  \<^verbatim>\<open>new Date()\<close> and \<^verbatim>\<open>Date.now()\<close> read the clock and are always valid.
\<close>

datatype date = Invalid_Date | Date int

text \<open>
  \<^verbatim>\<open>d.toISOString()\<close> throws a RangeError on an Invalid Date. The ISO-8601 text of a valid
  date is determined by its time value and determines it, so the text is represented by
  the time value.
\<close>

fun toISOString :: "date \<Rightarrow> int option" where
  "toISOString Invalid_Date = None"
| "toISOString (Date t) = Some t"

datatype exn = RangeError | TypeError

text \<open>How a call completes: by throwing (a rejected promise) or by returning.\<close>

datatype 'a completion = Throws exn | Returns 'a

record failure =
  code :: string
  message :: string

datatype 'a result = Failure failure | Success 'a

fun is_error :: "'a result \<Rightarrow> bool" where
  "is_error (Failure f) = True"
| "is_error (Success d) = False"

text \<open>Decimal rendering of a number inside a template string.\<close>

fun decimal :: "nat \<Rightarrow> string" where
  "decimal n =
     (if n < 10 then [char_of (48 + n)]
      else decimal (n div 10) @ [char_of (48 + n mod 10)])"

section \<open>Payment provider adapter: the status poll\<close>

datatype status = Pending | Paid | Expired

text \<open>\<^verbatim>\<open>BringinPaymentStatus\<close>; the two optional members hold whatever the body held.\<close>

record payment_status =
  ps_status :: status
  ps_paidAt :: jsval
  eurCredited :: jsval

text \<open>
  What \<^verbatim>\<open>fetch\<close> resolves to: the HTTP status with its text, and the outcome of
  \<^verbatim>\<open>response.json()\<close> (\<open>None\<close> when it rejects). \<^verbatim>\<open>response.ok\<close> is true for
  the statuses 200 to 299. The network is a function from the URL to the response,
  \<open>None\<close> when \<^verbatim>\<open>fetch\<close> itself rejects.
\<close>

record response =
  http_status :: nat
  statusText :: string
  json :: "jsval option"

definition ok :: "response \<Rightarrow> bool" where
  "ok r = (200 \<le> http_status r \<and> http_status r \<le> 299)"

type_synonym network = "string \<Rightarrow> response option"

definition pending_status :: payment_status where
  "pending_status = \<lparr>ps_status = Pending, ps_paidAt = Undefined, eurCredited = Undefined\<rparr>"

definition derive_status :: "(string \<Rightarrow> jsval) \<Rightarrow> status" where
  "derive_status d =
     (if d ''settled'' = Bool True \<or> d ''paid'' = Bool True \<or> d ''status'' = Str ''paid''
      then Paid
      else if d ''expired'' = Bool True \<or> d ''status'' = Str ''expired''
      then Expired
      else if d ''pending'' = Bool True \<or> d ''status'' = Str ''pending''
      then Pending
      else Pending)"

text \<open>
  \<^verbatim>\<open>checkInvoiceStatus(verifyUrl)\<close>. The whole body is inside \<^verbatim>\<open>try\<close>: a rejected
  \<^verbatim>\<open>fetch\<close>, a rejected \<^verbatim>\<open>json()\<close> and the TypeError of reading a property of
  \<^verbatim>\<open>null\<close> all end in the \<^verbatim>\<open>catch\<close>, which returns pending.
\<close>

definition checkInvoiceStatus :: "network \<Rightarrow> string \<Rightarrow> payment_status result" where
  "checkInvoiceStatus net verifyUrl =
     (case net verifyUrl of
        None \<Rightarrow> Success pending_status
      | Some r \<Rightarrow>
          if \<not> ok r then
            (if http_status r = 404 \<or> http_status r = 503 then Success pending_status
             else Failure \<lparr>code = ''verify_request_failed'',
                    message = ''Failed to check status: '' @ decimal (http_status r)
                      @ '' '' @ statusText r\<rparr>)
          else
            (case json r of
               None \<Rightarrow> Success pending_status
             | Some data \<Rightarrow>
                 (case props data of
                    None \<Rightarrow> Success pending_status
                  | Some d \<Rightarrow>
                      Success \<lparr>ps_status = derive_status d,
                        ps_paidAt = js_or (d ''settledAt'') (d ''paidAt''),
                        eurCredited = d ''eurCredited''\<rparr>)))"

section \<open>Payment provider adapter: addresses and verify URLs\<close>

text \<open>\<^verbatim>\<open>s.split(c)\<close> for a one-character separator: one part more than separators.\<close>

fun split_on :: "char \<Rightarrow> string \<Rightarrow> string list" where
  "split_on c [] = [[]]"
| "split_on c (x # xs) =
     (if x = c then [] # split_on c xs
      else (case split_on c xs of [] \<Rightarrow> [[x]] | p # ps \<Rightarrow> (x # p) # ps))"

text \<open>\<^verbatim>\<open>resolveLightningAddress(lnAddress)\<close>\<close>

definition resolveLightningAddress :: "string \<Rightarrow> string result" where
  "resolveLightningAddress lnAddress =
     (case split_on (CHR ''@'') lnAddress of
        [user, domain] \<Rightarrow>
          if user = [] \<or> domain = [] then
            Failure \<lparr>code = ''invalid_ln_address'',
              message = ''Lightning Address must be in format user@domain''\<rparr>
          else Success (''https://'' @ domain @ ''/.well-known/lnurlp/'' @ user)
      | _ \<Rightarrow>
          Failure \<lparr>code = ''invalid_ln_address'',
            message = ''Invalid Lightning Address format: '' @ lnAddress\<rparr>)"

text \<open>
  The host's \<^verbatim>\<open>URL\<close> class as far as \<^verbatim>\<open>getVerifyUrl\<close> uses it: the constructor
  (\<open>None\<close> when it throws a TypeError), the \<^verbatim>\<open>pathname\<close> getter and setter,
  \<^verbatim>\<open>searchParams.set\<close> and \<^verbatim>\<open>toString\<close>. The class is not code of this repository, so
  the functions below take it as a parameter; the setters return the changed object.
\<close>

record 'u url_api =
  new_URL :: "string \<Rightarrow> 'u option"
  get_pathname :: "'u \<Rightarrow> string"
  set_pathname :: "string \<Rightarrow> 'u \<Rightarrow> 'u"
  searchParams_set :: "string \<Rightarrow> string \<Rightarrow> 'u \<Rightarrow> 'u"
  toString :: "'u \<Rightarrow> string"

text \<open>\<^verbatim>\<open>LnUrlPayCallback\<close>\<close>

record lnurl_pay_callback =
  pr :: string
  routes :: jsval
  successAction :: jsval
  verify :: "string option"
  k1 :: "string option"
  cb_paymentHash :: "string option"
  checkingId :: "string option"

text \<open>An optional text that is truthy: present and not empty.\<close>

fun present :: "string option \<Rightarrow> string option" where
  "present None = None"
| "present (Some s) = (if s = [] then None else Some s)"

text \<open>
  \<^verbatim>\<open>s.replace(pat, rep)\<close> with a text pattern: the first occurrence is replaced, and
  \<open>rep\<close> is taken literally (\<^verbatim>\<open>'/verify'\<close> has no \<^verbatim>\<open>$\<close>).
\<close>

fun replace_first :: "string \<Rightarrow> string \<Rightarrow> string \<Rightarrow> string" where
  "replace_first pat rep [] = (if pat = [] then rep else [])"
| "replace_first pat rep (c # cs) =
     (if prefix pat (c # cs) then rep @ drop (length pat) (c # cs)
      else c # replace_first pat rep cs)"

text \<open>
  \<^verbatim>\<open>lnAddress.split('@')[i]\<close> inside a template string: a missing part is
  \<^verbatim>\<open>undefined\<close> and prints as that word.
\<close>

definition part :: "nat \<Rightarrow> string \<Rightarrow> string" where
  "part i lnAddress =
     (let parts = split_on (CHR ''@'') lnAddress
      in if i < length parts then parts ! i else ''undefined'')"

text \<open>\<^verbatim>\<open>getVerifyUrl(callbackResponse, callback, lnAddress)\<close>\<close>

definition getVerifyUrl ::
    "'u url_api \<Rightarrow> lnurl_pay_callback \<Rightarrow> string \<Rightarrow> string \<Rightarrow> string completion" where
  "getVerifyUrl api callbackResponse callback lnAddress =
     (case present (verify callbackResponse) of
        Some v \<Rightarrow> Returns v
      | None \<Rightarrow>
     (case present (k1 callbackResponse) of
        Some k \<Rightarrow>
          (case new_URL api callback of
             None \<Rightarrow> Throws TypeError
           | Some callbackUrl \<Rightarrow>
               (let verifyPath =
                      replace_first ''/callback'' ''/verify'' (get_pathname api callbackUrl);
                    moved = set_pathname api verifyPath callbackUrl;
                    tagged = searchParams_set api ''k1'' k moved
                in Returns (toString api tagged)))
      | None \<Rightarrow>
     (case present (cb_paymentHash callbackResponse) of
        Some h \<Rightarrow>
          (let domain = part 1 lnAddress; handle = part 0 lnAddress
           in Returns (''https://api.'' @ domain @ ''/lnurlp/'' @ handle
                 @ ''/verify?paymentHash='' @ h))
      | None \<Rightarrow>
     (case present (checkingId callbackResponse) of
        Some c \<Rightarrow>
          (let domain = part 1 lnAddress; handle = part 0 lnAddress
           in Returns (''https://api.'' @ domain @ ''/lnurlp/'' @ handle
                 @ ''/verify?checkingId='' @ c))
      | None \<Rightarrow>
          (case new_URL api callback of
             None \<Rightarrow> Throws TypeError
           | Some callbackUrl \<Rightarrow>
               Returns (toString api
                 (set_pathname api
                    (replace_first ''/callback'' ''/verify'' (get_pathname api callbackUrl))
                    callbackUrl)))))))"

section \<open>Session store\<close>

text \<open>\<^verbatim>\<open>BringinCheckoutSession\<close>. Amounts in sats and msats are whole numbers.\<close>

record session =
  checkoutId :: string
  lnAddress :: string
  eurAmount :: real
  sats :: int
  msats :: int
  bolt11 :: string
  verifyUrl :: string
  paymentHash :: "string option"
  createdAt :: date
  expiresAt :: date
  status :: status
  paidAt :: "date option"
  lastCheckedAt :: "date option"

text \<open>
  The two module-level \<^verbatim>\<open>Map\<close>s. A \<^verbatim>\<open>Map\<close> keeps its entries in insertion order and
  \<^verbatim>\<open>set\<close> on a key it holds replaces the value in place, which is what
  \<^const>\<open>AList.update\<close> does on an association list with distinct keys.
\<close>

record store =
  sessions :: "(string \<times> session) list"
  mockPaidTimestamps :: "(string \<times> date) list"

definition empty_store :: store where
  "empty_store = \<lparr>sessions = [], mockPaidTimestamps = []\<rparr>"

text \<open>The representation invariant of the two \<^verbatim>\<open>Map\<close>s: no key occurs twice.\<close>

definition wf_store :: "store \<Rightarrow> bool" where
  "wf_store st = (distinct (map fst (sessions st)) \<and> distinct (map fst (mockPaidTimestamps st)))"

text \<open>
  \<^verbatim>\<open>createSession(session)\<close>; \<open>now\<close> is the clock reading of \<^verbatim>\<open>new Date()\<close>. The
  argument is spread into the stored object and \<^verbatim>\<open>status\<close> and \<^verbatim>\<open>createdAt\<close> are
  written over it, so whatever the argument holds in these two fields is ignored.
\<close>

definition createSession :: "int \<Rightarrow> session \<Rightarrow> store \<Rightarrow> store" where
  "createSession now s st =
     st\<lparr>sessions :=
          AList.update (checkoutId s) (s\<lparr>status := Pending, createdAt := Date now\<rparr>) (sessions st)\<rparr>"

definition getSession :: "string \<Rightarrow> store \<Rightarrow> session option" where
  "getSession cid st = map_of (sessions st) cid"

text \<open>
  \<^verbatim>\<open>updateSessionStatus(checkoutId, status, paidAt?)\<close>; \<open>now\<close> is the reading that stamps
  \<^verbatim>\<open>lastCheckedAt\<close>. A \<^verbatim>\<open>Date\<close> object is truthy even when invalid, so \<^verbatim>\<open>paidAt\<close> is
  stored whenever it is passed.
\<close>

definition updateSessionStatus ::
    "int \<Rightarrow> string \<Rightarrow> status \<Rightarrow> date option \<Rightarrow> store \<Rightarrow> store" where
  "updateSessionStatus now cid new_status paid st =
     (case map_of (sessions st) cid of
        None \<Rightarrow> st
      | Some s \<Rightarrow>
          st\<lparr>sessions :=
               AList.update cid
                 (s\<lparr>status := new_status,
                    lastCheckedAt := Some (Date now),
                    paidAt := (case paid of None \<Rightarrow> paidAt s | Some d \<Rightarrow> Some d)\<rparr>)
                 (sessions st)\<rparr>)"

definition deleteSession :: "string \<Rightarrow> store \<Rightarrow> store" where
  "deleteSession cid st =
     \<lparr>sessions = AList.delete cid (sessions st),
      mockPaidTimestamps = AList.delete cid (mockPaidTimestamps st)\<rparr>"

definition clearAllSessions :: "store \<Rightarrow> store" where
  "clearAllSessions st = \<lparr>sessions = [], mockPaidTimestamps = []\<rparr>"

definition getAllSessions :: "store \<Rightarrow> session list" where
  "getAllSessions st = map snd (sessions st)"

text \<open>
  \<^verbatim>\<open>isSessionExpired(session)\<close>: \<^verbatim>\<open>new Date() > session.expiresAt\<close> compares time values,
  and a comparison with NaN is false.
\<close>

definition isSessionExpired :: "int \<Rightarrow> session \<Rightarrow> bool" where
  "isSessionExpired now s = (case expiresAt s of Invalid_Date \<Rightarrow> False | Date e \<Rightarrow> now > e)"

text \<open>
  \<^verbatim>\<open>shouldMockPaid(checkoutId, createdAt)\<close>; \<open>now\<close> is the reading of \<^verbatim>\<open>Date.now()\<close> and
  \<open>stamp\<close> that of the \<^verbatim>\<open>new Date()\<close> stored as the marker. With an invalid
  \<^verbatim>\<open>createdAt\<close> the elapsed time is NaN and \<^verbatim>\<open>elapsed > 12_000\<close> is false.
\<close>

definition elapsed_exceeds :: "int \<Rightarrow> date \<Rightarrow> int \<Rightarrow> bool" where
  "elapsed_exceeds now d limit = (case d of Invalid_Date \<Rightarrow> False | Date t \<Rightarrow> now - t > limit)"

definition shouldMockPaid :: "int \<Rightarrow> int \<Rightarrow> string \<Rightarrow> date \<Rightarrow> store \<Rightarrow> bool \<times> store" where
  "shouldMockPaid now stamp cid created st =
     (if map_of (mockPaidTimestamps st) cid \<noteq> None then (True, st)
      else if elapsed_exceeds now created 12000 then
        (True, st\<lparr>mockPaidTimestamps := AList.update cid (Date stamp) (mockPaidTimestamps st)\<rparr>)
      else (False, st))"

text \<open>
  \<^verbatim>\<open>cleanupExpiredSessions()\<close>: the \<^verbatim>\<open>for ... of sessions.entries()\<close> loop. Deleting the
  entry being visited does not disturb the iteration, so the loop visits every entry the
  map held at the start once, in order; the store and the counter are threaded through.
\<close>

fun cleanup_loop :: "int \<Rightarrow> (string \<times> session) list \<Rightarrow> store \<Rightarrow> nat \<Rightarrow> nat \<times> store" where
  "cleanup_loop now [] st cleaned = (cleaned, st)"
| "cleanup_loop now ((cid, s) # entries) st cleaned =
     (if status s = Expired \<and> elapsed_exceeds now (expiresAt s) 3600000 then
        cleanup_loop now entries
          \<lparr>sessions = AList.delete cid (sessions st),
           mockPaidTimestamps = AList.delete cid (mockPaidTimestamps st)\<rparr>
          (Suc cleaned)
      else cleanup_loop now entries st cleaned)"

definition cleanupExpiredSessions :: "int \<Rightarrow> store \<Rightarrow> nat \<times> store" where
  "cleanupExpiredSessions now st = cleanup_loop now (sessions st) st 0"

section \<open>Verification handler\<close>

text \<open>\<^verbatim>\<open>VerifyStatusResponse\<close>; \<^verbatim>\<open>paidAt\<close> is an ISO-8601 text.\<close>

record verify_status_response =
  vs_status :: status
  vs_paidAt :: "int option"
  amountSatsReceived :: "int option"

text \<open>The entry of the \<^verbatim>\<open>payments\<close> array sent to the settlement API.\<close>

record payment =
  pay_paymentHash :: string
  amountSats :: int
  sandbox :: bool

text \<open>What one call does to the outside world, in order.\<close>

datatype event =
    Polled string
  | PaymentReceived payment
  | Console_log string
  | Console_error string

text \<open>
  Everything one call of the handler reads from outside the store: the clock at each
  place the code reads it, the network answering the poll, the host's \<^verbatim>\<open>Date\<close>
  constructor applied to the provider's timestamp, and whether
  \<^verbatim>\<open>createMoneyDevKitClient()\<close> and \<^verbatim>\<open>client.checkouts.paymentReceived\<close> throw.
\<close>

record env =
  clock_expiry :: int
  clock_update :: int
  clock_mock :: int
  clock_marker :: int
  clock_paid :: int
  net :: network
  new_Date :: "jsval \<Rightarrow> date"
  client_throws :: bool
  paymentReceived_throws :: bool

text \<open>
  \<^verbatim>\<open>session.paymentHash || session.bolt11.slice(0, 32)\<close>; an invoice text is ASCII, so
  its first 32 code units are its first 32 characters.
\<close>

definition payment_ref :: "session \<Rightarrow> string" where
  "payment_ref s =
     (case paymentHash s of
        None \<Rightarrow> take 32 (bolt11 s)
      | Some h \<Rightarrow> if h \<noteq> [] then h else take 32 (bolt11 s))"

text \<open>
  The \<^verbatim>\<open>try { ... } catch\<close> block around the notification: a throw of either call is
  caught and logged, and control continues after the block in every case.
\<close>

definition notify :: "env \<Rightarrow> session \<Rightarrow> bool \<Rightarrow> string \<Rightarrow> event list" where
  "notify e s sb errmsg =
     (if client_throws e then [Console_error errmsg]
      else
        PaymentReceived \<lparr>pay_paymentHash = payment_ref s, amountSats = sats s, sandbox = sb\<rparr>
          # (if paymentReceived_throws e then [Console_error errmsg] else []))"

text \<open>\<^verbatim>\<open>success({status: 'paid', paidAt: paidAt.toISOString(), amountSatsReceived})\<close>\<close>

definition paid_response ::
    "date \<Rightarrow> session \<Rightarrow> verify_status_response result completion" where
  "paid_response d s =
     (case toISOString d of
        None \<Rightarrow> Throws RangeError
      | Some t \<Rightarrow>
          Returns (Success \<lparr>vs_status = Paid, vs_paidAt = Some t,
            amountSatsReceived = Some (sats s)\<rparr>))"

definition status_only :: "status \<Rightarrow> verify_status_response result completion" where
  "status_only x = Returns (Success \<lparr>vs_status = x, vs_paidAt = None, amountSatsReceived = None\<rparr>)"

text \<open>
  The body of \<^verbatim>\<open>if (statusResult.error || statusResult.data.status === 'pending')\<close>,
  reached when the poll failed or said pending: the local demo mode.
\<close>

definition mock_fallback ::
    "env \<Rightarrow> string \<Rightarrow> session \<Rightarrow> store
       \<Rightarrow> verify_status_response result completion \<times> store \<times> event list" where
  "mock_fallback e cid s st =
     (let (mock, st1) = shouldMockPaid (clock_mock e) (clock_marker e) cid (createdAt s) st in
      if mock then
        (let paid = Date (clock_paid e) in
         (paid_response paid s,
          updateSessionStatus (clock_update e) cid Paid (Some paid) st1,
          Polled (verifyUrl s)
            # Console_log (''[Bringin Demo] Mock payment confirmed for checkout: '' @ cid)
            # notify e s True ''[Bringin] Failed to notify API of mock payment:''))
      else (status_only Pending, st1, [Polled (verifyUrl s)]))"

text \<open>
  \<^verbatim>\<open>handleVerifyStatus(checkoutId)\<close>: the completion, the store afterwards and the
  effects. The local \<^verbatim>\<open>session\<close> is the object held by the map, and the fields read
  from it after \<^verbatim>\<open>updateSessionStatus\<close> (\<^verbatim>\<open>sats\<close>, \<^verbatim>\<open>paymentHash\<close>, \<^verbatim>\<open>bolt11\<close>) are
  not written by it. This is a call that runs to its end on the store it was given, with
  no other call interleaved at its two \<^verbatim>\<open>await\<close>s; the two parts of a call that
  another call can come between are \<open>handler_begin\<close> and \<open>handler_resume\<close> below.
\<close>

definition handleVerifyStatus ::
    "env \<Rightarrow> string \<Rightarrow> store \<Rightarrow> verify_status_response result completion \<times> store \<times> event list" where
  "handleVerifyStatus e cid st =
     (case getSession cid st of
        None \<Rightarrow>
          (Returns (Failure \<lparr>code = ''session_not_found'',
             message = ''No session found for checkout: '' @ cid\<rparr>), st, [])
      | Some s \<Rightarrow>
          if status s = Paid then
            (case paidAt s of
               None \<Rightarrow>
                 (Returns (Success \<lparr>vs_status = Paid, vs_paidAt = None,
                    amountSatsReceived = Some (sats s)\<rparr>), st, [])
             | Some d \<Rightarrow> (paid_response d s, st, []))
          else if isSessionExpired (clock_expiry e) s then
            (status_only Expired, updateSessionStatus (clock_update e) cid Expired None st, [])
          else
            (let statusResult = checkInvoiceStatus (net e) (verifyUrl s) in
             case statusResult of
               Success d \<Rightarrow>
                 if ps_status d = Pending then mock_fallback e cid s st
                 else if ps_status d = Paid then
                   (let paid = (if truthy (ps_paidAt d) then new_Date e (ps_paidAt d)
                                else Date (clock_paid e))
                    in (paid_response paid s,
                        updateSessionStatus (clock_update e) cid Paid (Some paid) st,
                        Polled (verifyUrl s)
                          # notify e s False ''[Bringin] Failed to notify API of payment:''))
                 else if ps_status d = Expired then
                   (status_only Expired,
                    updateSessionStatus (clock_update e) cid Expired None st,
                    [Polled (verifyUrl s)])
                 else (status_only Pending, st, [Polled (verifyUrl s)])
             | Failure f \<Rightarrow> mock_fallback e cid s st))"

text \<open>
  The handler is an \<^verbatim>\<open>async\<close> function. It runs without interruption up to
  \<^verbatim>\<open>await checkInvoiceStatus(session.verifyUrl)\<close>, where it either has finished already
  or is suspended holding the session object it looked up; other calls can run on the
  store before it resumes. After the poll it runs without interruption through every
  access to the store; the second \<^verbatim>\<open>await\<close> (the notification) is followed only by the
  construction of the result. The fields the resumed part reads from the session it
  holds (\<^verbatim>\<open>createdAt\<close>, \<^verbatim>\<open>verifyUrl\<close>, \<^verbatim>\<open>sats\<close>, \<^verbatim>\<open>paymentHash\<close>, \<^verbatim>\<open>bolt11\<close>) are
  written by no function of the store, so the record taken at the start has their values.
  The status is read only in the first part. The answer to the poll comes from the
  environment of the resumed part.
\<close>

datatype 'a phase = Finished 'a | Awaiting session

definition handler_begin ::
    "env \<Rightarrow> string \<Rightarrow> store
       \<Rightarrow> (verify_status_response result completion \<times> store \<times> event list) phase" where
  "handler_begin e cid st =
     (case getSession cid st of
        None \<Rightarrow>
          Finished (Returns (Failure \<lparr>code = ''session_not_found'',
             message = ''No session found for checkout: '' @ cid\<rparr>), st, [])
      | Some s \<Rightarrow>
          if status s = Paid then
            (case paidAt s of
               None \<Rightarrow>
                 Finished (Returns (Success \<lparr>vs_status = Paid, vs_paidAt = None,
                    amountSatsReceived = Some (sats s)\<rparr>), st, [])
             | Some d \<Rightarrow> Finished (paid_response d s, st, []))
          else if isSessionExpired (clock_expiry e) s then
            Finished (status_only Expired,
              updateSessionStatus (clock_update e) cid Expired None st, [])
          else Awaiting s)"

definition handler_resume ::
    "env \<Rightarrow> string \<Rightarrow> session \<Rightarrow> store
       \<Rightarrow> verify_status_response result completion \<times> store \<times> event list" where
  "handler_resume e cid s st =
     (let statusResult = checkInvoiceStatus (net e) (verifyUrl s) in
      case statusResult of
        Success d \<Rightarrow>
          if ps_status d = Pending then mock_fallback e cid s st
          else if ps_status d = Paid then
            (let paid = (if truthy (ps_paidAt d) then new_Date e (ps_paidAt d)
                         else Date (clock_paid e))
             in (paid_response paid s,
                 updateSessionStatus (clock_update e) cid Paid (Some paid) st,
                 Polled (verifyUrl s)
                   # notify e s False ''[Bringin] Failed to notify API of payment:''))
          else if ps_status d = Expired then
            (status_only Expired,
             updateSessionStatus (clock_update e) cid Expired None st,
             [Polled (verifyUrl s)])
          else (status_only Pending, st, [Polled (verifyUrl s)])
      | Failure f \<Rightarrow> mock_fallback e cid s st)"

section \<open>Notions used to state the properties\<close>

subsection \<open>Indicators in a verify-endpoint body\<close>

text \<open>The body is an object that has the member \<open>k\<close> with exactly the value \<open>v\<close>.\<close>

definition has_member :: "jsval \<Rightarrow> string \<Rightarrow> jsval \<Rightarrow> bool" where
  "has_member body k v = (case body of Obj fs \<Rightarrow> map_of fs k = Some v | _ \<Rightarrow> False)"

definition paid_indicator :: "jsval \<Rightarrow> bool" where
  "paid_indicator body =
     (has_member body ''settled'' (Bool True) \<or> has_member body ''paid'' (Bool True)
      \<or> has_member body ''status'' (Str ''paid''))"

definition expired_indicator :: "jsval \<Rightarrow> bool" where
  "expired_indicator body =
     (has_member body ''expired'' (Bool True) \<or> has_member body ''status'' (Str ''expired''))"

text \<open>A body that carries an expired flag together with a paid status text.\<close>

definition both_body :: jsval where
  "both_body = Obj [(''expired'', Bool True), (''status'', Str ''paid'')]"

text \<open>The network that answers every request with \<open>r\<close>.\<close>

definition answering :: "response \<Rightarrow> network" where
  "answering r = (\<lambda>url. Some r)"

subsection \<open>The code of a failure\<close>

fun failure_code :: "'a result \<Rightarrow> string option" where
  "failure_code (Failure f) = Some (code f)"
| "failure_code (Success d) = None"

subsection \<open>Networks and answers used in the examples\<close>

definition server_error :: response where
  "server_error = \<lparr>http_status = 500, statusText = ''Internal Server Error'', json = None\<rparr>"

definition not_found :: response where
  "not_found = \<lparr>http_status = 404, statusText = ''Not Found'', json = None\<rparr>"

text \<open>A success status whose body is not JSON: \<^verbatim>\<open>response.json()\<close> rejects.\<close>

definition unparseable :: response where
  "unparseable = \<lparr>http_status = 200, statusText = ''OK'', json = None\<rparr>"

text \<open>The network on which every \<^verbatim>\<open>fetch\<close> rejects.\<close>

definition unreachable :: network where
  "unreachable = (\<lambda>url. None)"

subsection \<open>Observing a handler call, and sequences of calls\<close>

text \<open>The status under which a checkout is stored, and the store a call leaves.\<close>

definition status_of :: "string \<Rightarrow> store \<Rightarrow> status option" where
  "status_of k st = map_option status (map_of (sessions st) k)"

definition store_after :: "'a \<times> store \<times> event list \<Rightarrow> store" where
  "store_after r = fst (snd r)"

text \<open>
  A sequence of handler calls that do not overlap: each call, with its own checkout
  identifier and its own environment, runs to its end before the next one begins.
\<close>

fun run :: "(env \<times> string) list \<Rightarrow> store \<Rightarrow> store" where
  "run [] st = st"
| "run ((e, cid) # calls) st = run calls (store_after (handleVerifyStatus e cid st))"

text \<open>
  What the poll of a call says about a session, and when a call pays it: the poll yields
  \<open>paid\<close>, or the poll fails or yields \<open>pending\<close> and the mock fallback triggers.
\<close>

definition poll_yields :: "env \<Rightarrow> session \<Rightarrow> status \<Rightarrow> bool" where
  "poll_yields e s x =
     (case checkInvoiceStatus (net e) (verifyUrl s) of
        Success d \<Rightarrow> ps_status d = x
      | Failure f \<Rightarrow> False)"

definition pays :: "env \<Rightarrow> string \<Rightarrow> session \<Rightarrow> store \<Rightarrow> bool" where
  "pays e cid s st =
     (poll_yields e s Paid \<or>
      (\<not> poll_yields e s Paid \<and> \<not> poll_yields e s Expired \<and>
       fst (shouldMockPaid (clock_mock e) (clock_marker e) cid (createdAt s) st)))"

subsection \<open>A checkout used in the examples\<close>

text \<open>
  A session for 1000 sats created at time 0 that expires after fifteen minutes, and the
  store that holds just this session.
\<close>

definition demo_session :: session where
  "demo_session =
     \<lparr>checkoutId = ''chk_1'', lnAddress = ''store123@bringin.app'', eurAmount = 1,
      sats = 1000, msats = 1000000, bolt11 = ''lnbc10u1pexample'',
      verifyUrl = ''https://pay.example/verify'', paymentHash = None,
      createdAt = Date 0, expiresAt = Date 900000, status = Pending,
      paidAt = None, lastCheckedAt = None\<rparr>"

definition demo_store :: store where
  "demo_store = createSession 0 demo_session empty_store"

text \<open>
  The host's \<^verbatim>\<open>Date\<close> constructor on a text that is not a date: the result is an Invalid
  Date. The examples pass it nothing else.
\<close>

definition not_a_date :: "jsval \<Rightarrow> date" where
  "not_a_date v = Invalid_Date"

text \<open>
  The environment of a call made at time \<open>t\<close> (every clock reading of the call is
  \<open>t\<close>) against the network \<open>nw\<close>, with a settlement API that accepts the
  notification.
\<close>

definition env_at :: "int \<Rightarrow> network \<Rightarrow> env" where
  "env_at t nw =
     \<lparr>clock_expiry = t, clock_update = t, clock_mock = t, clock_marker = t, clock_paid = t,
      net = nw, new_Date = not_a_date, client_throws = False, paymentReceived_throws = False\<rparr>"

text \<open>Answers of the verify endpoint.\<close>

definition says_expired :: response where
  "says_expired = \<lparr>http_status = 200, statusText = ''OK'',
     json = Some (Obj [(''status'', Str ''expired'')])\<rparr>"

definition says_settled :: response where
  "says_settled = \<lparr>http_status = 200, statusText = ''OK'',
     json = Some (Obj [(''settled'', Bool True)])\<rparr>"

text \<open>Settled, with a timestamp member that is not a date.\<close>

definition settled_soon :: response where
  "settled_soon = \<lparr>http_status = 200, statusText = ''OK'',
     json = Some (Obj [(''settled'', Bool True), (''settledAt'', Str ''soon'')])\<rparr>"

text \<open>The demo session once paid, as the handler stores it at time 5000 with \<open>d\<close>.\<close>

definition paid_session :: "date \<Rightarrow> session" where
  "paid_session d =
     demo_session\<lparr>status := Paid, paidAt := Some d, lastCheckedAt := Some (Date 5000)\<rparr>"

text \<open>
  The store after the provider has reported the demo session expired at time 5000, well
  before its expiry time.
\<close>

definition expired_store :: store where
  "expired_store =
     store_after (handleVerifyStatus (env_at 5000 (answering says_expired)) ''chk_1'' demo_store)"

subsection \<open>The sweep, stated over the entries\<close>

text \<open>
  A session the sweep is to delete: its status is \<open>expired\<close> and its expiry time lies
  more than 3600000 ms before \<open>now\<close>.
\<close>

definition stale :: "int \<Rightarrow> session \<Rightarrow> bool" where
  "stale now s =
     (status s = Expired \<and>
      (case expiresAt s of Invalid_Date \<Rightarrow> False | Date e \<Rightarrow> now - e > 3600000))"

definition stale_ids :: "int \<Rightarrow> (string \<times> session) list \<Rightarrow> string list" where
  "stale_ids now entries = map fst (filter (\<lambda>(k, s). stale now s) entries)"

text \<open>
  A store for the sweep at time 10000000: a session expired long ago, one expired thirty
  minutes ago, one expired exactly one hour ago, a pending and a paid one with old expiry
  times; two of them have mock markers.
\<close>

definition sweep_store :: store where
  "sweep_store =
     \<lparr>sessions =
        [(''old'', demo_session\<lparr>checkoutId := ''old'', status := Expired, expiresAt := Date 0\<rparr>),
         (''recent'', demo_session\<lparr>checkoutId := ''recent'', status := Expired,
            expiresAt := Date 8200000\<rparr>),
         (''edge'', demo_session\<lparr>checkoutId := ''edge'', status := Expired,
            expiresAt := Date 6400000\<rparr>),
         (''open'', demo_session\<lparr>checkoutId := ''open'', expiresAt := Date 0\<rparr>),
         (''done'', demo_session\<lparr>checkoutId := ''done'', status := Paid, expiresAt := Date 0,
            paidAt := Some (Date 5)\<rparr>)],
      mockPaidTimestamps = [(''old'', Date 1), (''done'', Date 5)]\<rparr>"

subsection \<open>The operations of the session store\<close>

text \<open>
  Every function the store module exports, with its arguments and clock readings, and its
  effect on the store. The readers (\<^verbatim>\<open>getSession\<close>, \<^verbatim>\<open>getAllSessions\<close>,
  \<^verbatim>\<open>isSessionExpired\<close>) leave the store as it is.
\<close>

datatype store_op =
    CreateSession int session
  | GetSession string
  | UpdateSessionStatus int string status "date option"
  | DeleteSession string
  | ClearAllSessions
  | GetAllSessions
  | IsSessionExpired int session
  | ShouldMockPaid int int string date
  | CleanupExpiredSessions int

fun apply_op :: "store_op \<Rightarrow> store \<Rightarrow> store" where
  "apply_op (CreateSession now s) st = createSession now s st"
| "apply_op (GetSession cid) st = st"
| "apply_op (UpdateSessionStatus now cid x p) st = updateSessionStatus now cid x p st"
| "apply_op (DeleteSession cid) st = deleteSession cid st"
| "apply_op ClearAllSessions st = clearAllSessions st"
| "apply_op GetAllSessions st = st"
| "apply_op (IsSessionExpired now s) st = st"
| "apply_op (ShouldMockPaid now stamp cid created) st = snd (shouldMockPaid now stamp cid created st)"
| "apply_op (CleanupExpiredSessions now) st = snd (cleanupExpiredSessions now st)"

definition has_marker :: "string \<Rightarrow> store \<Rightarrow> bool" where
  "has_marker cid st = (map_of (mockPaidTimestamps st) cid \<noteq> None)"

text \<open>
  The store after the mock fallback has paid the demo session at time 12001, and the
  store after the same checkout identifier has been used for a new session that then
  expired: both reached from the empty store by the code's own operations.
\<close>

definition marked_store :: store where
  "marked_store = store_after (handleVerifyStatus (env_at 12001 unreachable) ''chk_1'' demo_store)"

definition reused_store :: store where
  "reused_store =
     store_after (handleVerifyStatus (env_at 30001 unreachable) ''chk_1''
       (createSession 20000 (demo_session\<lparr>expiresAt := Date 30000\<rparr>) marked_store))"

subsection \<open>Addresses\<close>

text \<open>
  The address \<open>a\<close> is \<open>user@domain\<close> with exactly one \<open>@\<close> and neither part empty.
\<close>

definition well_formed :: "string \<Rightarrow> string \<Rightarrow> string \<Rightarrow> bool" where
  "well_formed a user domain =
     (a = user @ ''@'' @ domain \<and> CHR ''@'' \<notin> set user \<and> CHR ''@'' \<notin> set domain
      \<and> user \<noteq> [] \<and> domain \<noteq> [])"

subsection \<open>URLs used in the examples\<close>

text \<open>
  An instance of the \<^verbatim>\<open>URL\<close> interface for the examples: a URL without fragment is its
  origin, its path and its query pairs, and the constructor knows the URLs of a table.
  On the two callbacks of \<open>known_callbacks\<close>, whose characters need no escaping, the
  host's class parses, edits and prints as this instance does.
\<close>

record plain_url =
  origin :: string
  path :: string
  query :: "(string \<times> string) list"

fun join_amp :: "string list \<Rightarrow> string" where
  "join_amp [] = []"
| "join_amp [x] = x"
| "join_amp (x # y # ys) = x @ ''&'' @ join_amp (y # ys)"

definition plain_href :: "plain_url \<Rightarrow> string" where
  "plain_href u =
     origin u @ path u @
       (if query u = [] then [] else ''?'' @ join_amp (map (\<lambda>(k, v). k @ ''='' @ v) (query u)))"

definition plain_urls :: "(string \<times> plain_url) list \<Rightarrow> plain_url url_api" where
  "plain_urls known =
     \<lparr>new_URL = map_of known,
      get_pathname = path,
      set_pathname = (\<lambda>p u. u\<lparr>path := p\<rparr>),
      searchParams_set = (\<lambda>k v u. u\<lparr>query := AList.update k v (query u)\<rparr>),
      toString = plain_href\<rparr>"

definition known_callbacks :: "(string \<times> plain_url) list" where
  "known_callbacks =
     [(''https://pay.example/lnurlp/store123/callback'',
         \<lparr>origin = ''https://pay.example'', path = ''/lnurlp/store123/callback'', query = []\<rparr>),
      (''https://pay.example/callback/v1/callback'',
         \<lparr>origin = ''https://pay.example'', path = ''/callback/v1/callback'', query = []\<rparr>)]"

definition bare_response :: lnurl_pay_callback where
  "bare_response =
     \<lparr>pr = ''lnbc10u1pexample'', routes = Arr [], successAction = Undefined,
      verify = None, k1 = None, cb_paymentHash = None, checkingId = None\<rparr>"

section \<open>Properties of the status poll\<close>

lemma props_has_member:
  "props body = Some d \<Longrightarrow> v \<noteq> Undefined \<Longrightarrow> (d k = v) = has_member body k v"
  by (cases body) (auto simp: has_member_def split: option.splits)

lemma props_None_has_member: "props body = None \<Longrightarrow> \<not> has_member body k v"
  by (cases body) (auto simp: has_member_def)

lemma derive_status_indicators:
  "props body = Some d \<Longrightarrow>
   derive_status d =
     (if paid_indicator body then Paid else if expired_indicator body then Expired else Pending)"
  by (simp add: derive_status_def paid_indicator_def expired_indicator_def props_has_member)

text \<open>
  Claim C5. When the verify endpoint answers with a success status and a body that
  parses, the poll succeeds and its status is \<open>paid\<close> if the body has
  \<^verbatim>\<open>settled === true\<close>, \<^verbatim>\<open>paid === true\<close> or \<^verbatim>\<open>status === 'paid'\<close>; otherwise
  \<open>expired\<close> if it has \<^verbatim>\<open>expired === true\<close> or \<^verbatim>\<open>status === 'expired'\<close>; otherwise
  \<open>pending\<close>. A body with a paid and an expired indicator therefore yields \<open>paid\<close>.
\<close>

theorem checkInvoiceStatus_precedence:
  assumes "nw url = Some r" and "ok r" and "json r = Some body"
  shows "\<exists>ps. checkInvoiceStatus nw url = Success ps \<and>
           ps_status ps =
             (if paid_indicator body then Paid
              else if expired_indicator body then Expired else Pending)"
proof (cases "props body")
  case None
  then have "\<not> paid_indicator body" "\<not> expired_indicator body"
    by (simp_all add: paid_indicator_def expired_indicator_def props_None_has_member)
  with None assms show ?thesis
    by (simp add: checkInvoiceStatus_def pending_status_def)
next
  case (Some d)
  with assms show ?thesis
    by (simp add: checkInvoiceStatus_def derive_status_indicators)
qed

theorem checkInvoiceStatus_precedence_witness:
  "paid_indicator both_body \<and> expired_indicator both_body \<and>
   (\<exists>ps. checkInvoiceStatus
            (answering \<lparr>http_status = 200, statusText = ''OK'', json = Some both_body\<rparr>)
            ''https://pay.example/verify'' = Success ps
      \<and> ps_status ps = Paid)"
proof -
  let ?r = "\<lparr>http_status = 200, statusText = ''OK'', json = Some both_body\<rparr>"
  have p: "paid_indicator both_body" "expired_indicator both_body"
    by (simp_all add: paid_indicator_def expired_indicator_def has_member_def both_body_def)
  have r: "answering ?r ''https://pay.example/verify'' = Some ?r"
    by (simp add: answering_def)
  have "ok ?r" by (simp add: ok_def)
  from checkInvoiceStatus_precedence
         [of "answering ?r" "''https://pay.example/verify''" ?r both_body, OF r this]
       p
  show ?thesis by simp
qed

text \<open>
  Claim C4, as amended. The status poll returns success with status \<open>pending\<close> when
  \<^verbatim>\<open>fetch\<close> rejects, when the response is not a success and its status is 404 or 503,
  and when the body of a success response does not parse or is \<^verbatim>\<open>null\<close>. Every other
  non-success status yields a failure, whose code is the text
  \<^verbatim>\<open>verify_request_failed\<close>, and the poll fails in no other case.
\<close>

theorem checkInvoiceStatus_failure_cases:
  "(nw url = None \<longrightarrow> checkInvoiceStatus nw url = Success pending_status) \<and>
   (\<forall>r. nw url = Some r \<and> \<not> ok r \<and> (http_status r = 404 \<or> http_status r = 503)
        \<longrightarrow> checkInvoiceStatus nw url = Success pending_status) \<and>
   (\<forall>r. nw url = Some r \<and> ok r \<and> (json r = None \<or> json r = Some Null)
        \<longrightarrow> checkInvoiceStatus nw url = Success pending_status) \<and>
   (\<forall>r. nw url = Some r \<and> \<not> ok r \<and> http_status r \<noteq> 404 \<and> http_status r \<noteq> 503
        \<longrightarrow> failure_code (checkInvoiceStatus nw url) = Some ''verify_request_failed'') \<and>
   (is_error (checkInvoiceStatus nw url)
      = (\<exists>r. nw url = Some r \<and> \<not> ok r \<and> http_status r \<noteq> 404 \<and> http_status r \<noteq> 503))"
  by (auto simp: checkInvoiceStatus_def split: option.splits)

theorem checkInvoiceStatus_failure_cases_witness:
  "checkInvoiceStatus unreachable ''https://pay.example/verify'' = Success pending_status \<and>
   checkInvoiceStatus (answering not_found) ''https://pay.example/verify''
     = Success pending_status \<and>
   checkInvoiceStatus (answering unparseable) ''https://pay.example/verify''
     = Success pending_status \<and>
   failure_code (checkInvoiceStatus (answering server_error) ''https://pay.example/verify'')
     = Some ''verify_request_failed'' \<and>
   is_error (checkInvoiceStatus (answering server_error) ''https://pay.example/verify'')"
  using checkInvoiceStatus_failure_cases [of unreachable "''https://pay.example/verify''"]
    checkInvoiceStatus_failure_cases [of "answering not_found" "''https://pay.example/verify''"]
    checkInvoiceStatus_failure_cases [of "answering unparseable" "''https://pay.example/verify''"]
    checkInvoiceStatus_failure_cases [of "answering server_error" "''https://pay.example/verify''"]
  by (simp add: unreachable_def answering_def not_found_def unparseable_def server_error_def ok_def)

text \<open>
  Claim C4 as the specification words it names the failure code \<^verbatim>\<open>request_failed\<close>;
  on a 500 answer the code of the failure is a different text.
\<close>

theorem checkInvoiceStatus_code_counterexample:
  "failure_code (checkInvoiceStatus (answering server_error) ''https://pay.example/verify'')
     \<noteq> Some ''request_failed''"
  by (simp add: checkInvoiceStatus_def answering_def server_error_def ok_def)

section \<open>Properties of the session store\<close>

text \<open>
  Claim C2, as amended. For an identifier without a mock marker and a valid creation
  time, \<open>shouldMockPaid\<close> returns true exactly when more than 12000 ms have elapsed
  (at exactly 12000 ms it still returns false), and it records the marker on that true
  answer and changes nothing otherwise. With a marker present it returns true whatever the
  times are and changes nothing; so after one true answer every later call for the
  identifier is true.
\<close>

theorem shouldMockPaid_threshold:
  "(map_of (mockPaidTimestamps st) cid = None \<longrightarrow>
      shouldMockPaid now stamp cid (Date c) st =
        (if now - c > 12000
         then (True, st\<lparr>mockPaidTimestamps :=
                          AList.update cid (Date stamp) (mockPaidTimestamps st)\<rparr>)
         else (False, st))) \<and>
   (map_of (mockPaidTimestamps st) cid \<noteq> None \<longrightarrow>
      shouldMockPaid now stamp cid created st = (True, st)) \<and>
   (fst (shouldMockPaid now stamp cid created st) \<longrightarrow>
      shouldMockPaid now' stamp' cid created' (snd (shouldMockPaid now stamp cid created st))
        = (True, snd (shouldMockPaid now stamp cid created st)))"
  by (auto simp: shouldMockPaid_def elapsed_exceeds_def update_conv' split: date.splits)

theorem shouldMockPaid_threshold_witness:
  "shouldMockPaid 11999 11999 ''chk_1'' (Date 0) empty_store = (False, empty_store) \<and>
   shouldMockPaid 12001 12002 ''chk_1'' (Date 0) empty_store
     = (True, \<lparr>sessions = [], mockPaidTimestamps = [(''chk_1'', Date 12002)]\<rparr>) \<and>
   shouldMockPaid 5 6 ''chk_1'' (Date 4)
       \<lparr>sessions = [], mockPaidTimestamps = [(''chk_1'', Date 12002)]\<rparr>
     = (True, \<lparr>sessions = [], mockPaidTimestamps = [(''chk_1'', Date 12002)]\<rparr>)"
proof -
  let ?marked = "\<lparr>sessions = [], mockPaidTimestamps = [(''chk_1'', Date 12002)]\<rparr>"
  have none: "map_of (mockPaidTimestamps empty_store) ''chk_1'' = None"
    by (simp add: empty_store_def)
  have early: "shouldMockPaid 11999 11999 ''chk_1'' (Date 0) empty_store = (False, empty_store)"
    using shouldMockPaid_threshold [of empty_store "''chk_1''" 11999 11999 0] none by simp
  have late: "shouldMockPaid 12001 12002 ''chk_1'' (Date 0) empty_store = (True, ?marked)"
    using shouldMockPaid_threshold [of empty_store "''chk_1''" 12001 12002 0] none
    by (simp add: empty_store_def)
  have again: "shouldMockPaid 5 6 ''chk_1'' (Date 4) ?marked = (True, ?marked)"
    using shouldMockPaid_threshold
      [of empty_store "''chk_1''" 12001 12002 0 "Date 0" 5 6 "Date 4"] late
    by simp
  from early late again show ?thesis by simp
qed

text \<open>
  Claim C2 as the specification words it has true at an elapsed time of 12000 ms or more;
  at exactly 12000 ms the answer is false.
\<close>

theorem shouldMockPaid_boundary_counterexample:
  "(12000::int) - 0 \<ge> 12000 \<and> \<not> fst (shouldMockPaid 12000 12000 ''chk_1'' (Date 0) empty_store)"
  by (simp add: shouldMockPaid_def elapsed_exceeds_def empty_store_def)

section \<open>Properties of the verification handler\<close>

lemma sessions_shouldMockPaid [simp]:
  "sessions (snd (shouldMockPaid n s c d st)) = sessions st"
  by (simp add: shouldMockPaid_def)

lemma getSession_shouldMockPaid [simp]:
  "getSession cid (snd (shouldMockPaid n s c d st)) = getSession cid st"
  by (simp add: getSession_def shouldMockPaid_def)

lemma status_of_shouldMockPaid [simp]:
  "status_of k (snd (shouldMockPaid n s c d st)) = status_of k st"
  by (simp add: status_of_def)

lemma status_of_update:
  "status_of k (updateSessionStatus now cid x p st) =
     (if k = cid \<and> status_of cid st \<noteq> None then Some x else status_of k st)"
  by (auto simp: status_of_def updateSessionStatus_def update_conv' split: option.splits)

text \<open>A call for one checkout leaves the status of every other checkout alone.\<close>

lemma handler_other:
  "k \<noteq> cid \<Longrightarrow> status_of k (store_after (handleVerifyStatus e cid st)) = status_of k st"
  by (auto simp: handleVerifyStatus_def mock_fallback_def store_after_def status_of_update
      Let_def case_prod_beta split: option.splits result.splits)

lemma handler_absent:
  "status_of cid st = None \<Longrightarrow> store_after (handleVerifyStatus e cid st) = st"
  by (auto simp: handleVerifyStatus_def getSession_def status_of_def store_after_def
      split: option.splits)

lemma handler_paid:
  "status_of cid st = Some Paid \<Longrightarrow> store_after (handleVerifyStatus e cid st) = st"
  by (auto simp: handleVerifyStatus_def getSession_def status_of_def store_after_def
      split: option.splits)

lemma handler_same:
  "status_of cid st = Some x \<Longrightarrow>
   status_of cid (store_after (handleVerifyStatus e cid st)) \<in> {Some x, Some Paid, Some Expired}"
  by (auto simp: handleVerifyStatus_def mock_fallback_def store_after_def status_of_update
      Let_def case_prod_beta split: option.splits result.splits)

lemma handler_step:
  assumes "status_of k st = Some x"
  shows "\<exists>y. status_of k (store_after (handleVerifyStatus e cid st)) = Some y
           \<and> (x = Paid \<longrightarrow> y = Paid) \<and> (x = Expired \<longrightarrow> y = Expired \<or> y = Paid)"
proof (cases "k = cid")
  case False
  with assms show ?thesis by (simp add: handler_other)
next
  case True
  show ?thesis
  proof (cases "x = Paid")
    case True
    with assms \<open>k = cid\<close> show ?thesis by (simp add: handler_paid)
  next
    case False
    from False assms \<open>k = cid\<close> handler_same [of cid st x e]
    show ?thesis by auto
  qed
qed

text \<open>Along calls that do not overlap, the status of a stored session moves as follows.\<close>

lemma run_status:
  "status_of k st = Some x \<Longrightarrow>
   \<exists>y. status_of k (run calls st) = Some y
      \<and> (x = Paid \<longrightarrow> y = Paid) \<and> (x = Expired \<longrightarrow> y = Expired \<or> y = Paid)"
proof (induction calls arbitrary: st x)
  case Nil
  then show ?case by simp
next
  case (Cons call calls)
  obtain e cid where call: "call = (e, cid)" by (cases call)
  from handler_step [OF Cons.prems, of e cid]
  obtain y where y: "status_of k (store_after (handleVerifyStatus e cid st)) = Some y"
    and xy: "x = Paid \<longrightarrow> y = Paid" "x = Expired \<longrightarrow> y = Expired \<or> y = Paid"
    by blast
  from Cons.IH [OF y]
  obtain z where z: "status_of k (run calls (store_after (handleVerifyStatus e cid st))) = Some z"
    and yz: "y = Paid \<longrightarrow> z = Paid" "y = Expired \<longrightarrow> z = Expired \<or> z = Paid"
    by blast
  from z xy yz show ?case by (auto simp: call)
qed

lemma demo_store_eq:
  "demo_store = \<lparr>sessions = [(''chk_1'', demo_session)], mockPaidTimestamps = []\<rparr>"
  by (simp add: demo_store_def createSession_def empty_store_def demo_session_def)

lemma poll_expired_at_5000:
  "handleVerifyStatus (env_at 5000 (answering says_expired)) ''chk_1'' demo_store =
     (status_only Expired,
      \<lparr>sessions = [(''chk_1'',
          demo_session\<lparr>status := Expired, lastCheckedAt := Some (Date 5000)\<rparr>)],
       mockPaidTimestamps = []\<rparr>,
      [Polled ''https://pay.example/verify''])"
  by (simp add: demo_store_eq handleVerifyStatus_def getSession_def demo_session_def
      isSessionExpired_def env_at_def checkInvoiceStatus_def answering_def says_expired_def
      ok_def derive_status_def js_or_def updateSessionStatus_def)

lemma poll_settled_after_expired:
  "handleVerifyStatus (env_at 6000 (answering says_settled)) ''chk_1''
     \<lparr>sessions = [(''chk_1'',
         demo_session\<lparr>status := Expired, lastCheckedAt := Some (Date 5000)\<rparr>)],
      mockPaidTimestamps = []\<rparr> =
     (Returns (Success \<lparr>vs_status = Paid, vs_paidAt = Some 6000,
        amountSatsReceived = Some 1000\<rparr>),
      \<lparr>sessions = [(''chk_1'',
          demo_session\<lparr>status := Paid, lastCheckedAt := Some (Date 6000),
            paidAt := Some (Date 6000)\<rparr>)],
       mockPaidTimestamps = []\<rparr>,
      [Polled ''https://pay.example/verify'',
       PaymentReceived \<lparr>pay_paymentHash = ''lnbc10u1pexample'', amountSats = 1000,
         sandbox = False\<rparr>])"
  by (simp add: handleVerifyStatus_def getSession_def demo_session_def
      isSessionExpired_def env_at_def checkInvoiceStatus_def answering_def says_settled_def
      ok_def derive_status_def js_or_def updateSessionStatus_def paid_response_def
      notify_def payment_ref_def Let_def)

lemma getSession_update:
  "getSession cid st = Some s \<Longrightarrow>
   getSession cid (updateSessionStatus now cid x p st)
     = Some (s\<lparr>status := x, lastCheckedAt := Some (Date now),
               paidAt := (case p of None \<Rightarrow> paidAt s | Some d \<Rightarrow> Some d)\<rparr>)"
  by (simp add: getSession_def updateSessionStatus_def update_conv')

text \<open>A call is its first part followed at once by its resumed part.\<close>

lemma handleVerifyStatus_phases:
  "handleVerifyStatus e cid st =
     (case handler_begin e cid st of
        Finished r \<Rightarrow> r
      | Awaiting s \<Rightarrow> handler_resume e cid s st)"
  by (simp add: handleVerifyStatus_def handler_begin_def handler_resume_def
      split: option.splits)

lemma status_of_getSession: "getSession k st = Some s \<Longrightarrow> status_of k st = Some (status s)"
  by (simp add: status_of_def getSession_def)

lemma resume_status:
  assumes "getSession cid st = Some s'"
  shows "status_of cid (store_after (handler_resume e cid s st)) =
           Some (if pays e cid s st then Paid
                 else if poll_yields e s Expired then Expired else status s')"
proof -
  from assms have so: "status_of cid st = Some (status s')"
    by (rule status_of_getSession)
  show ?thesis
  proof (cases "checkInvoiceStatus (net e) (verifyUrl s)")
    case (Failure f)
    with so show ?thesis
      by (simp add: handler_resume_def mock_fallback_def store_after_def status_of_update
          pays_def poll_yields_def Let_def case_prod_beta)
  next
    case (Success d)
    with so show ?thesis
      by (cases "ps_status d")
         (simp_all add: handler_resume_def mock_fallback_def store_after_def status_of_update
          pays_def poll_yields_def Let_def case_prod_beta)
  qed
qed

lemma handler_status_exact:
  assumes "getSession cid st = Some s" and "status s \<noteq> Paid"
  shows "status_of cid (store_after (handleVerifyStatus e cid st)) =
           Some (if isSessionExpired (clock_expiry e) s then Expired
                 else if pays e cid s st then Paid
                 else if poll_yields e s Expired then Expired else status s)"
proof (cases "isSessionExpired (clock_expiry e) s")
  case True
  with assms status_of_getSession [OF assms(1)] show ?thesis
    by (simp add: handleVerifyStatus_def store_after_def status_of_update)
next
  case False
  with assms have "handleVerifyStatus e cid st = handler_resume e cid s st"
    by (simp add: handleVerifyStatus_phases handler_begin_def)
  with False resume_status [OF assms(1), of e s] show ?thesis by simp
qed

lemma getSession_update_other:
  "k \<noteq> cid \<Longrightarrow> getSession k (updateSessionStatus now cid x p st) = getSession k st"
  by (simp add: getSession_def updateSessionStatus_def update_conv' split: option.splits)

lemma expiresAt_update:
  "getSession k st = Some s \<Longrightarrow>
   \<exists>s'. getSession k (updateSessionStatus now cid x p st) = Some s' \<and> expiresAt s' = expiresAt s"
  by (cases "k = cid") (simp_all add: getSession_update getSession_update_other)

lemma expiresAt_mock_fallback:
  "getSession k st = Some s \<Longrightarrow>
   \<exists>s'. getSession k (fst (snd (mock_fallback e cid s0 st))) = Some s' \<and> expiresAt s' = expiresAt s"
  using expiresAt_update [of k "snd (shouldMockPaid (clock_mock e) (clock_marker e) cid (createdAt s0) st)" s]
  by (simp add: mock_fallback_def Let_def case_prod_beta)

lemma expiresAt_handler:
  assumes "getSession k st = Some s"
  shows "\<exists>s'. getSession k (store_after (handleVerifyStatus e cid st)) = Some s'
                \<and> expiresAt s' = expiresAt s"
proof (cases "getSession cid st")
  case None
  with assms show ?thesis by (simp add: handleVerifyStatus_def store_after_def)
next
  case (Some c)
  note fb = expiresAt_mock_fallback [OF assms, of e cid c]
  note up = expiresAt_update [OF assms]
  show ?thesis
  proof (cases "checkInvoiceStatus (net e) (verifyUrl c)")
    case (Failure f)
    with Some assms fb up show ?thesis
      by (simp add: handleVerifyStatus_def store_after_def split: option.splits)
  next
    case (Success d)
    with Some assms fb up show ?thesis
      by (simp add: handleVerifyStatus_def store_after_def Let_def split: option.splits)
  qed
qed

text \<open>
  An expired session stays expired along calls all of whose clock readings are past its
  expiry time, whatever the provider and the mock fallback say.
\<close>

lemma expired_past_expiry_stays:
  assumes "getSession k st = Some s" and "status s = Expired"
    and "\<forall>(e, cid) \<in> set calls. cid = k \<longrightarrow> isSessionExpired (clock_expiry e) s"
  shows "status_of k (run calls st) = Some Expired"
  using assms
proof (induction calls arbitrary: st s)
  case Nil
  then show ?case by (simp add: status_of_getSession)
next
  case (Cons call calls)
  obtain e cid where call: "call = (e, cid)" by (cases call)
  let ?st = "store_after (handleVerifyStatus e cid st)"
  from expiresAt_handler [OF Cons.prems(1), of e cid]
  obtain s' where s': "getSession k ?st = Some s'" "expiresAt s' = expiresAt s" by blast
  have "status_of k ?st = Some Expired"
  proof (cases "cid = k")
    case True
    with Cons.prems(3) call have "isSessionExpired (clock_expiry e) s" by simp
    with Cons.prems(1,2) True handler_status_exact [of k st s e] show ?thesis by simp
  next
    case False
    with Cons.prems(1,2) show ?thesis
      by (simp add: handler_other status_of_getSession)
  qed
  with s'(1) have st': "status s' = Expired" by (simp add: status_of_getSession)
  from Cons.prems(3) s'(2)
  have "\<forall>(e, cid) \<in> set calls. cid = k \<longrightarrow> isSessionExpired (clock_expiry e) s'"
    by (auto simp: isSessionExpired_def)
  from Cons.IH [OF s'(1) st' this] show ?case by (simp add: call)
qed

lemma expired_store_eq:
  "expired_store =
     \<lparr>sessions = [(''chk_1'',
         demo_session\<lparr>status := Expired, lastCheckedAt := Some (Date 5000)\<rparr>)],
      mockPaidTimestamps = []\<rparr>"
  by (simp add: expired_store_def store_after_def poll_expired_at_5000)

text \<open>
  Claim C1, as amended. Along every sequence of handler calls that do not overlap, a
  stored session stays stored, and its status moves from \<open>pending\<close> only to \<open>paid\<close> or
  \<open>expired\<close>, never leaves \<open>paid\<close>, and from \<open>expired\<close> never returns to
  \<open>pending\<close>. One call on a session that is not paid leaves it \<open>expired\<close> when the
  clock is past its expiry time; otherwise \<open>paid\<close> when the poll yields \<open>paid\<close>, or
  fails or yields \<open>pending\<close> while the mock fallback triggers; otherwise \<open>expired\<close>
  when the poll yields \<open>expired\<close>; otherwise as it was. So an expired session becomes
  paid only in a call whose clock has not passed the expiry time and that pays, and it
  stays expired along calls whose clocks are all past the expiry time.
\<close>

theorem status_evolution:
  "(status_of k st = Some x \<longrightarrow>
      (\<exists>y. status_of k (run calls st) = Some y
         \<and> (x = Paid \<longrightarrow> y = Paid) \<and> (x = Expired \<longrightarrow> y = Expired \<or> y = Paid))) \<and>
   (getSession k st = Some s \<and> status s \<noteq> Paid \<longrightarrow>
      status_of k (store_after (handleVerifyStatus e k st)) =
        Some (if isSessionExpired (clock_expiry e) s then Expired
              else if pays e k s st then Paid
              else if poll_yields e s Expired then Expired
              else status s)) \<and>
   (getSession k st = Some s \<and> status s = Expired \<longrightarrow>
      (status_of k (store_after (handleVerifyStatus e k st)) = Some Paid)
        = (\<not> isSessionExpired (clock_expiry e) s \<and> pays e k s st)) \<and>
   (getSession k st = Some s \<and> status s = Expired
      \<and> (\<forall>(e, cid) \<in> set calls. cid = k \<longrightarrow> isSessionExpired (clock_expiry e) s) \<longrightarrow>
      status_of k (run calls st) = Some Expired)"
proof (intro conjI impI)
  assume "status_of k st = Some x"
  then show "\<exists>y. status_of k (run calls st) = Some y
         \<and> (x = Paid \<longrightarrow> y = Paid) \<and> (x = Expired \<longrightarrow> y = Expired \<or> y = Paid)"
    by (rule run_status)
next
  assume "getSession k st = Some s \<and> status s \<noteq> Paid"
  then show "status_of k (store_after (handleVerifyStatus e k st)) =
        Some (if isSessionExpired (clock_expiry e) s then Expired
              else if pays e k s st then Paid
              else if poll_yields e s Expired then Expired
              else status s)"
    by (simp add: handler_status_exact)
next
  assume a: "getSession k st = Some s \<and> status s = Expired"
  then have "status s \<noteq> Paid" by simp
  with a handler_status_exact [of k st s e]
  show "(status_of k (store_after (handleVerifyStatus e k st)) = Some Paid)
        = (\<not> isSessionExpired (clock_expiry e) s \<and> pays e k s st)"
    by simp
next
  assume "getSession k st = Some s \<and> status s = Expired
      \<and> (\<forall>(e, cid) \<in> set calls. cid = k \<longrightarrow> isSessionExpired (clock_expiry e) s)"
  then show "status_of k (run calls st) = Some Expired"
    by (intro expired_past_expiry_stays [of k st s]) simp_all
qed

theorem status_evolution_witness:
  "status_of ''chk_1'' expired_store = Some Expired \<and>
   (\<exists>y. status_of ''chk_1''
          (run [(env_at 6000 (answering says_settled), ''chk_1'')] expired_store) = Some y
      \<and> (y = Expired \<or> y = Paid)) \<and>
   status_of ''chk_1''
     (store_after (handleVerifyStatus (env_at 6000 (answering says_settled)) ''chk_1''
        expired_store)) = Some Paid \<and>
   status_of ''chk_1''
     (store_after (handleVerifyStatus (env_at 6000 unreachable) ''chk_1'' expired_store))
     = Some Expired \<and>
   status_of ''chk_1''
     (run [(env_at 900001 (answering says_settled), ''chk_1''),
           (env_at 900002 unreachable, ''chk_1'')] expired_store) = Some Expired"
proof -
  let ?s = "demo_session\<lparr>status := Expired, lastCheckedAt := Some (Date 5000)\<rparr>"
  have g: "getSession ''chk_1'' expired_store = Some ?s"
    by (simp add: expired_store_eq getSession_def)
  have x: "status ?s = Expired" "status ?s \<noteq> Paid" by simp_all
  have expired: "status_of ''chk_1'' expired_store = Some Expired"
    by (simp add: expired_store_eq status_of_def)
  have fresh: "\<not> isSessionExpired (clock_expiry (env_at 6000 nw)) ?s" for nw
    by (simp add: isSessionExpired_def env_at_def demo_session_def)
  have late: "\<forall>(e, cid) \<in> set [(env_at 900001 (answering says_settled), ''chk_1''),
                                   (env_at 900002 unreachable, ''chk_1'')].
                cid = ''chk_1'' \<longrightarrow> isSessionExpired (clock_expiry e) ?s"
    by (simp add: isSessionExpired_def env_at_def demo_session_def)
  have p: "pays (env_at 6000 (answering says_settled)) ''chk_1'' ?s expired_store"
    by (simp add: pays_def poll_yields_def env_at_def demo_session_def checkInvoiceStatus_def
        answering_def says_settled_def ok_def derive_status_def)
  have np: "\<not> pays (env_at 6000 unreachable) ''chk_1'' ?s expired_store"
       "\<not> poll_yields (env_at 6000 unreachable) ?s Expired"
    by (simp_all add: pays_def poll_yields_def env_at_def demo_session_def
        checkInvoiceStatus_def unreachable_def pending_status_def shouldMockPaid_def
        elapsed_exceeds_def expired_store_eq)
  note inst = status_evolution [of "''chk_1''" expired_store]
  have 1: "\<exists>y. status_of ''chk_1''
          (run [(env_at 6000 (answering says_settled), ''chk_1'')] expired_store) = Some y
      \<and> (y = Expired \<or> y = Paid)"
    using inst [of Expired "[(env_at 6000 (answering says_settled), ''chk_1'')]"] expired
    by simp
  have 2: "status_of ''chk_1''
     (store_after (handleVerifyStatus (env_at 6000 (answering says_settled)) ''chk_1''
        expired_store)) = Some Paid"
    using inst [of _ _ ?s "env_at 6000 (answering says_settled)"] g x fresh p by simp
  have 3: "status_of ''chk_1''
     (store_after (handleVerifyStatus (env_at 6000 unreachable) ''chk_1'' expired_store))
     = Some Expired"
    using inst [of _ _ ?s "env_at 6000 unreachable"] g x fresh np by simp
  have 4: "status_of ''chk_1''
     (run [(env_at 900001 (answering says_settled), ''chk_1''),
           (env_at 900002 unreachable, ''chk_1'')] expired_store) = Some Expired"
    using inst [of _ "[(env_at 900001 (answering says_settled), ''chk_1''),
                      (env_at 900002 unreachable, ''chk_1'')]" ?s] g x late
    by blast
  from expired 1 2 3 4 show ?thesis by blast
qed

lemma settled_at_5001:
  "store_after (handleVerifyStatus (env_at 5001 (answering says_settled)) ''chk_1'' demo_store) =
     \<lparr>sessions = [(''chk_1'',
         demo_session\<lparr>status := Paid, lastCheckedAt := Some (Date 5001),
           paidAt := Some (Date 5001)\<rparr>)],
      mockPaidTimestamps = []\<rparr>"
  by (simp add: demo_store_eq handleVerifyStatus_def getSession_def demo_session_def
      isSessionExpired_def env_at_def checkInvoiceStatus_def answering_def says_settled_def
      ok_def derive_status_def js_or_def updateSessionStatus_def store_after_def Let_def)

text \<open>
  Claim C1 as the specification words it has an expired session never become paid and a
  paid session never change, for every sequence of calls. First, the demo session, not
  yet past its expiry, is reported expired by the provider at time 5000 and settled at
  time 6000: its status is \<open>expired\<close> after the first call and \<open>paid\<close> after the
  second. Second, two calls that overlap: a call begun at time 5000 on the pending demo
  session is suspended at its poll; a second call, made at time 5001, finds the invoice
  settled and stores \<open>paid\<close>; the first call resumes at time 5002 with an answer that
  says expired, and, the status being read only before the poll, stores \<open>expired\<close> over
  \<open>paid\<close>.
\<close>

theorem expired_then_paid_counterexample:
  "status_of ''chk_1''
     (run [(env_at 5000 (answering says_expired), ''chk_1'')] demo_store) = Some Expired \<and>
   status_of ''chk_1''
     (run [(env_at 5000 (answering says_expired), ''chk_1''),
           (env_at 6000 (answering says_settled), ''chk_1'')] demo_store) = Some Paid \<and>
   handler_begin (env_at 5000 (answering says_expired)) ''chk_1'' demo_store
     = Awaiting demo_session \<and>
   status_of ''chk_1''
     (store_after (handleVerifyStatus (env_at 5001 (answering says_settled)) ''chk_1''
        demo_store)) = Some Paid \<and>
   status_of ''chk_1''
     (store_after (handler_resume (env_at 5002 (answering says_expired)) ''chk_1'' demo_session
        (store_after (handleVerifyStatus (env_at 5001 (answering says_settled)) ''chk_1''
           demo_store)))) = Some Expired"
proof -
  have seq: "status_of ''chk_1''
       (run [(env_at 5000 (answering says_expired), ''chk_1'')] demo_store) = Some Expired"
    "status_of ''chk_1''
       (run [(env_at 5000 (answering says_expired), ''chk_1''),
             (env_at 6000 (answering says_settled), ''chk_1'')] demo_store) = Some Paid"
    by (simp_all add: store_after_def poll_expired_at_5000 poll_settled_after_expired
        status_of_def)
  have b: "handler_begin (env_at 5000 (answering says_expired)) ''chk_1'' demo_store
             = Awaiting demo_session"
    by (simp add: handler_begin_def demo_store_eq getSession_def isSessionExpired_def
        env_at_def demo_session_def)
  have p: "status_of ''chk_1''
     (store_after (handleVerifyStatus (env_at 5001 (answering says_settled)) ''chk_1''
        demo_store)) = Some Paid"
    by (simp add: settled_at_5001 status_of_def)
  have r: "status_of ''chk_1''
     (store_after (handler_resume (env_at 5002 (answering says_expired)) ''chk_1'' demo_session
        (store_after (handleVerifyStatus (env_at 5001 (answering says_settled)) ''chk_1''
           demo_store)))) = Some Expired"
    unfolding settled_at_5001
    by (simp add: handler_resume_def demo_session_def env_at_def
        checkInvoiceStatus_def answering_def says_expired_def ok_def derive_status_def
        js_or_def updateSessionStatus_def store_after_def status_of_def)
  from seq b p r show ?thesis by blast
qed

text \<open>
  What a call on a session stored as \<open>paid\<close> does: nothing to the store and nothing to
  the outside world. It returns the cached result when the stored \<^verbatim>\<open>paidAt\<close> is absent
  or a valid date, and throws when it is an Invalid Date.
\<close>

lemma handleVerifyStatus_paid_cached:
  assumes "getSession cid st = Some s" and "status s = Paid"
  shows "handleVerifyStatus e cid st =
           ((case paidAt s of
               None \<Rightarrow> Returns (Success \<lparr>vs_status = Paid, vs_paidAt = None,
                          amountSatsReceived = Some (sats s)\<rparr>)
             | Some Invalid_Date \<Rightarrow> Throws RangeError
             | Some (Date t) \<Rightarrow> Returns (Success \<lparr>vs_status = Paid, vs_paidAt = Some t,
                          amountSatsReceived = Some (sats s)\<rparr>)),
            st, [])"
  using assms
  by (simp add: handleVerifyStatus_def paid_response_def split: option.splits date.splits)

text \<open>
  Whether the settlement API client or its \<^verbatim>\<open>paymentReceived\<close> call throws changes
  neither the completion of the handler nor the store it leaves; only the logged events
  differ.
\<close>

lemma mock_fallback_notification:
  "fst (mock_fallback (e\<lparr>client_throws := a, paymentReceived_throws := b\<rparr>) cid s st)
     = fst (mock_fallback e cid s st) \<and>
   fst (snd (mock_fallback (e\<lparr>client_throws := a, paymentReceived_throws := b\<rparr>) cid s st))
     = fst (snd (mock_fallback e cid s st))"
  by (simp add: mock_fallback_def Let_def case_prod_beta)

lemma notification_swallowed:
  "fst (handleVerifyStatus (e\<lparr>client_throws := a, paymentReceived_throws := b\<rparr>) cid st)
     = fst (handleVerifyStatus e cid st) \<and>
   store_after (handleVerifyStatus (e\<lparr>client_throws := a, paymentReceived_throws := b\<rparr>) cid st)
     = store_after (handleVerifyStatus e cid st)"
proof (cases "getSession cid st")
  case None
  then show ?thesis by (simp add: handleVerifyStatus_def store_after_def)
next
  case (Some s)
  show ?thesis
  proof (cases "checkInvoiceStatus (net e) (verifyUrl s)")
    case (Failure f)
    with Some show ?thesis
      by (simp add: handleVerifyStatus_def store_after_def mock_fallback_notification
          split: option.splits)
  next
    case (Success d)
    with Some show ?thesis
      by (simp add: handleVerifyStatus_def store_after_def mock_fallback_notification Let_def
          split: option.splits)
  qed
qed

text \<open>
  A poll that says paid, with no timestamp or one the host reads as a valid date, on a
  stored session that is neither paid nor past its expiry: the handler returns the paid
  result and the stored session is paid with \<^verbatim>\<open>paidAt\<close> set.
\<close>

lemma poll_paid_transition:
  assumes "getSession cid st = Some s" and "status s \<noteq> Paid"
    and "\<not> isSessionExpired (clock_expiry e) s"
    and "checkInvoiceStatus (net e) (verifyUrl s) = Success d" and "ps_status d = Paid"
    and "(if truthy (ps_paidAt d) then new_Date e (ps_paidAt d) else Date (clock_paid e)) = Date t"
  shows "fst (handleVerifyStatus e cid st)
           = Returns (Success \<lparr>vs_status = Paid, vs_paidAt = Some t,
               amountSatsReceived = Some (sats s)\<rparr>) \<and>
         getSession cid (store_after (handleVerifyStatus e cid st))
           = Some (s\<lparr>status := Paid, lastCheckedAt := Some (Date (clock_update e)),
                     paidAt := Some (Date t)\<rparr>)"
  using assms
  by (simp add: handleVerifyStatus_def store_after_def Let_def paid_response_def getSession_update)

text \<open>The same for a failed or pending poll on which the mock fallback triggers.\<close>

lemma mock_fallback_paid:
  assumes "getSession cid st = Some s"
    and "fst (shouldMockPaid (clock_mock e) (clock_marker e) cid (createdAt s) st)"
  shows "fst (mock_fallback e cid s st)
           = Returns (Success \<lparr>vs_status = Paid, vs_paidAt = Some (clock_paid e),
               amountSatsReceived = Some (sats s)\<rparr>) \<and>
         getSession cid (fst (snd (mock_fallback e cid s st)))
           = Some (s\<lparr>status := Paid, lastCheckedAt := Some (Date (clock_update e)),
                     paidAt := Some (Date (clock_paid e))\<rparr>)"
  using assms
  by (simp add: mock_fallback_def Let_def paid_response_def getSession_update case_prod_beta)

lemma mock_paid_transition:
  assumes "getSession cid st = Some s" and "status s \<noteq> Paid"
    and "\<not> isSessionExpired (clock_expiry e) s"
    and "is_error (checkInvoiceStatus (net e) (verifyUrl s)) \<or>
         (\<exists>d. checkInvoiceStatus (net e) (verifyUrl s) = Success d \<and> ps_status d = Pending)"
    and "fst (shouldMockPaid (clock_mock e) (clock_marker e) cid (createdAt s) st)"
  shows "fst (handleVerifyStatus e cid st)
           = Returns (Success \<lparr>vs_status = Paid, vs_paidAt = Some (clock_paid e),
               amountSatsReceived = Some (sats s)\<rparr>) \<and>
         getSession cid (store_after (handleVerifyStatus e cid st))
           = Some (s\<lparr>status := Paid, lastCheckedAt := Some (Date (clock_update e)),
                     paidAt := Some (Date (clock_paid e))\<rparr>)"
proof -
  have "handleVerifyStatus e cid st = mock_fallback e cid s st"
  proof (cases "checkInvoiceStatus (net e) (verifyUrl s)")
    case (Failure f)
    with assms(1-3) show ?thesis by (simp add: handleVerifyStatus_def)
  next
    case (Success d)
    with assms(4) have "ps_status d = Pending" by simp
    with Success assms(1-3) show ?thesis by (simp add: handleVerifyStatus_def)
  qed
  with mock_fallback_paid [OF assms(1) assms(5)] show ?thesis
    by (simp add: store_after_def)
qed

text \<open>
  Claim C3, evaluated where the code departs from it. The demo session is pending and
  not past its expiry; the verify endpoint answers
  \<^verbatim>\<open>{"settled": true, "settledAt": "soon"}\<close>. The poll yields \<open>paid\<close>, the handler builds
  \<^verbatim>\<open>new Date("soon")\<close>, an Invalid Date, stores it as \<^verbatim>\<open>paidAt\<close> together with status
  \<open>paid\<close>, notifies the settlement API, and then throws the RangeError of
  \<^verbatim>\<open>paidAt.toISOString()\<close> instead of returning the paid result.
\<close>

theorem settled_with_bad_timestamp_throws:
  "handleVerifyStatus (env_at 5000 (answering settled_soon)) ''chk_1'' demo_store =
     (Throws RangeError,
      \<lparr>sessions = [(''chk_1'', paid_session Invalid_Date)], mockPaidTimestamps = []\<rparr>,
      [Polled ''https://pay.example/verify'',
       PaymentReceived \<lparr>pay_paymentHash = ''lnbc10u1pexample'', amountSats = 1000,
         sandbox = False\<rparr>])"
  by (simp add: demo_store_eq handleVerifyStatus_def getSession_def demo_session_def
      paid_session_def isSessionExpired_def env_at_def checkInvoiceStatus_def answering_def
      settled_soon_def ok_def derive_status_def js_or_def updateSessionStatus_def
      paid_response_def notify_def payment_ref_def not_a_date_def Let_def)

text \<open>
  Claim C8, evaluated where the code departs from it. On the store the previous call
  left, whose session is \<open>paid\<close> with an Invalid Date as \<^verbatim>\<open>paidAt\<close>, a call neither
  polls nor changes the store, but \<^verbatim>\<open>session.paidAt?.toISOString()\<close> throws a RangeError
  and no cached result is returned.
\<close>

theorem paid_with_bad_timestamp_throws:
  "handleVerifyStatus (env_at 6000 unreachable) ''chk_1''
     \<lparr>sessions = [(''chk_1'', paid_session Invalid_Date)], mockPaidTimestamps = []\<rparr> =
     (Throws RangeError,
      \<lparr>sessions = [(''chk_1'', paid_session Invalid_Date)], mockPaidTimestamps = []\<rparr>,
      [])"
  by (simp add: handleVerifyStatus_def getSession_def demo_session_def paid_session_def
      paid_response_def)

section \<open>Properties of the sweep and of the mock markers\<close>

text \<open>
  The loop deletes, from both maps, the identifiers of the stale entries it visits, and
  counts them.
\<close>

lemma cleanup_loop_eq:
  "cleanup_loop now entries st n =
     (n + length (stale_ids now entries),
      \<lparr>sessions = filter (\<lambda>(k, s). k \<notin> set (stale_ids now entries)) (sessions st),
       mockPaidTimestamps =
         filter (\<lambda>(k, d). k \<notin> set (stale_ids now entries)) (mockPaidTimestamps st)\<rparr>)"
proof (induction entries arbitrary: st n)
  case Nil
  then show ?case by (simp add: stale_ids_def)
next
  case (Cons entry entries)
  obtain cid s where entry: "entry = (cid, s)" by (cases entry)
  show ?case
  proof (cases "stale now s")
    case True
    then have "status s = Expired \<and> elapsed_exceeds now (expiresAt s) 3600000"
      by (simp add: stale_def elapsed_exceeds_def)
    moreover have ids: "stale_ids now (entry # entries) = cid # stale_ids now entries"
      using True by (simp add: stale_ids_def entry)
    ultimately show ?thesis
      by (simp add: entry Cons.IH AList.delete_eq conj_commute cong: filter_cong)
         (auto intro!: filter_cong)
  next
    case False
    then have "\<not> (status s = Expired \<and> elapsed_exceeds now (expiresAt s) 3600000)"
      by (simp add: stale_def elapsed_exceeds_def)
    moreover have "stale_ids now (entry # entries) = stale_ids now entries"
      using False by (simp add: stale_ids_def entry)
    ultimately show ?thesis by (simp add: entry Cons.IH)
  qed
qed

lemma distinct_filter_keys:
  assumes "distinct (map fst entries)"
  shows "filter (\<lambda>(k, s). k \<notin> set (stale_ids now entries)) entries
           = filter (\<lambda>(k, s). \<not> stale now s) entries"
proof (rule filter_cong [OF refl])
  fix x assume x: "x \<in> set entries"
  obtain k s where ks: "x = (k, s)" by (cases x)
  have "k \<in> set (stale_ids now entries) \<longleftrightarrow> stale now s"
  proof
    assume "k \<in> set (stale_ids now entries)"
    then obtain s' where s': "(k, s') \<in> set entries" "stale now s'"
      by (auto simp: stale_ids_def)
    with assms x ks have "s' = s" by (meson eq_key_imp_eq_value)
    with s' show "stale now s" by simp
  next
    assume "stale now s"
    with x ks show "k \<in> set (stale_ids now entries)"
      by (force simp: stale_ids_def)
  qed
  then show "(case x of (k, s) \<Rightarrow> k \<notin> set (stale_ids now entries))
               = (case x of (k, s) \<Rightarrow> \<not> stale now s)"
    by (simp add: ks)
qed

text \<open>
  Claim C9. On a store whose session map has no identifier twice,
  \<open>cleanupExpiredSessions\<close> returns the number of sessions whose status is \<open>expired\<close> and
  whose expiry time is more than 3600000 ms before the current time, removes exactly
  these sessions and the mock markers of their identifiers, and leaves every other
  session and marker as it was, in order.
\<close>

theorem cleanupExpiredSessions_exact:
  assumes "distinct (map fst (sessions st))"
  shows "cleanupExpiredSessions now st =
           (length (filter (\<lambda>(k, s). stale now s) (sessions st)),
            \<lparr>sessions = filter (\<lambda>(k, s). \<not> stale now s) (sessions st),
             mockPaidTimestamps =
               filter (\<lambda>(k, d). k \<notin> set (stale_ids now (sessions st))) (mockPaidTimestamps st)\<rparr>)"
  using distinct_filter_keys [OF assms, of now]
  by (simp add: cleanupExpiredSessions_def cleanup_loop_eq) (simp add: stale_ids_def)

theorem cleanupExpiredSessions_exact_witness:
  "distinct (map fst (sessions sweep_store)) \<and>
   cleanupExpiredSessions 10000000 sweep_store =
     (1, \<lparr>sessions = tl (sessions sweep_store), mockPaidTimestamps = [(''done'', Date 5)]\<rparr>)"
proof -
  have d: "distinct (map fst (sessions sweep_store))"
    by (simp add: sweep_store_def)
  from cleanupExpiredSessions_exact [OF d, of 10000000] d show ?thesis
    by (simp add: sweep_store_def stale_def stale_ids_def demo_session_def)
qed

lemma markers_updateSessionStatus [simp]:
  "mockPaidTimestamps (updateSessionStatus now cid x p st) = mockPaidTimestamps st"
  by (simp add: updateSessionStatus_def split: option.splits)

lemma has_marker_shouldMockPaid:
  "has_marker cid st \<Longrightarrow> has_marker cid (snd (shouldMockPaid now stamp k created st))"
  by (simp add: has_marker_def shouldMockPaid_def update_conv')

lemma has_marker_handler:
  "has_marker cid st \<Longrightarrow> has_marker cid (store_after (handleVerifyStatus e k st))"
proof (cases "getSession k st")
  case None
  assume "has_marker cid st"
  with None show ?thesis by (simp add: handleVerifyStatus_def store_after_def)
next
  case (Some s)
  assume m: "has_marker cid st"
  have fb: "has_marker cid (fst (snd (mock_fallback e k s st)))"
    using has_marker_shouldMockPaid [OF m, of "clock_mock e" "clock_marker e" k "createdAt s"]
    by (simp add: mock_fallback_def Let_def case_prod_beta has_marker_def)
  from m have up: "\<And>now x p. has_marker cid (updateSessionStatus now k x p st)"
    by (simp add: has_marker_def)
  show ?thesis
  proof (cases "checkInvoiceStatus (net e) (verifyUrl s)")
    case (Failure f)
    with Some m fb up show ?thesis
      by (simp add: handleVerifyStatus_def store_after_def split: option.splits)
  next
    case (Success d)
    with Some m fb up show ?thesis
      by (simp add: handleVerifyStatus_def store_after_def Let_def split: option.splits)
  qed
qed

text \<open>
  Claim C10, as amended. \<open>createSession\<close> stores the new session, pending, under its
  identifier in place of any earlier one and leaves the marker map as it is, so when the
  identifier already has a marker, \<open>shouldMockPaid\<close> on the fresh session returns true
  at once, whatever the times are, and changes nothing. An operation
  of the store that removes an existing marker is \<open>deleteSession\<close> of that identifier,
  \<open>clearAllSessions\<close> or \<open>cleanupExpiredSessions\<close>; the handler removes none.
\<close>

theorem createSession_keeps_markers:
  "mockPaidTimestamps (createSession now s st) = mockPaidTimestamps st \<and>
   getSession (checkoutId s) (createSession now s st)
     = Some (s\<lparr>status := Pending, createdAt := Date now\<rparr>) \<and>
   (has_marker (checkoutId s) st \<longrightarrow>
      shouldMockPaid now' stamp (checkoutId s) created (createSession now s st)
        = (True, createSession now s st)) \<and>
   (has_marker cid st \<and> \<not> has_marker cid (apply_op op st) \<longrightarrow>
      op = DeleteSession cid \<or> op = ClearAllSessions \<or> (\<exists>t. op = CleanupExpiredSessions t)) \<and>
   (has_marker cid st \<longrightarrow> has_marker cid (store_after (handleVerifyStatus e k st)))"
proof -
  have a: "mockPaidTimestamps (createSession now s st) = mockPaidTimestamps st"
    by (simp add: createSession_def)
  have b: "has_marker (checkoutId s) st \<longrightarrow>
      shouldMockPaid now' stamp (checkoutId s) created (createSession now s st)
        = (True, createSession now s st)"
    by (simp add: has_marker_def shouldMockPaid_def a)
  have c: "has_marker cid st \<and> \<not> has_marker cid (apply_op op st) \<longrightarrow>
      op = DeleteSession cid \<or> op = ClearAllSessions \<or> (\<exists>t. op = CleanupExpiredSessions t)"
  proof (cases op)
    case (DeleteSession k)
    then show ?thesis
      by (auto simp: has_marker_def deleteSession_def delete_conv')
  next
    case (ShouldMockPaid n t k c)
    then show ?thesis using has_marker_shouldMockPaid [of cid st n t k c] by auto
  qed (auto simp: has_marker_def createSession_def)
  have g: "getSession (checkoutId s) (createSession now s st)
             = Some (s\<lparr>status := Pending, createdAt := Date now\<rparr>)"
    by (simp add: getSession_def createSession_def update_conv')
  from a g b c has_marker_handler [of cid st e k] show ?thesis by blast
qed

lemma marked_store_eq:
  "marked_store =
     \<lparr>sessions = [(''chk_1'',
         demo_session\<lparr>status := Paid, lastCheckedAt := Some (Date 12001),
           paidAt := Some (Date 12001)\<rparr>)],
      mockPaidTimestamps = [(''chk_1'', Date 12001)]\<rparr>"
  by (simp add: marked_store_def demo_store_eq handleVerifyStatus_def getSession_def
      demo_session_def isSessionExpired_def env_at_def checkInvoiceStatus_def unreachable_def
      mock_fallback_def shouldMockPaid_def elapsed_exceeds_def updateSessionStatus_def
      store_after_def pending_status_def Let_def)

lemma reused_store_eq:
  "reused_store =
     \<lparr>sessions = [(''chk_1'',
         demo_session\<lparr>createdAt := Date 20000, expiresAt := Date 30000, status := Expired,
           lastCheckedAt := Some (Date 30001)\<rparr>)],
      mockPaidTimestamps = [(''chk_1'', Date 12001)]\<rparr>"
  by (simp add: reused_store_def marked_store_eq createSession_def handleVerifyStatus_def
      getSession_def demo_session_def isSessionExpired_def env_at_def updateSessionStatus_def
      store_after_def)

theorem createSession_keeps_markers_witness:
  "has_marker ''chk_1'' marked_store \<and>
   mockPaidTimestamps (createSession 20000 demo_session marked_store)
     = [(''chk_1'', Date 12001)] \<and>
   getSession ''chk_1'' (createSession 20000 demo_session marked_store)
     = Some (demo_session\<lparr>createdAt := Date 20000\<rparr>) \<and>
   shouldMockPaid 20001 20001 ''chk_1'' (Date 20000) (createSession 20000 demo_session marked_store)
     = (True, createSession 20000 demo_session marked_store) \<and>
   \<not> has_marker ''chk_1'' (apply_op (DeleteSession ''chk_1'') marked_store) \<and>
   has_marker ''chk_1''
     (store_after (handleVerifyStatus (env_at 20001 unreachable) ''chk_1'' marked_store))"
proof -
  have m: "has_marker ''chk_1'' marked_store"
    by (simp add: has_marker_def marked_store_eq)
  have d: "\<not> has_marker ''chk_1'' (apply_op (DeleteSession ''chk_1'') marked_store)"
    by (simp add: has_marker_def marked_store_eq deleteSession_def)
  have c: "checkoutId demo_session = ''chk_1''"
    by (simp add: demo_session_def)
  from createSession_keeps_markers
         [of 20000 demo_session marked_store 20001 20001 "Date 20000" "''chk_1''"
             "DeleteSession ''chk_1''" "env_at 20001 unreachable" "''chk_1''"]
       m d c
  show ?thesis by (simp add: marked_store_eq demo_session_def)
qed

text \<open>
  Claim C10 as the specification words it has only \<open>deleteSession\<close> and
  \<open>clearAllSessions\<close> remove markers. The sweep removes the marker of a session it
  deletes: here the marker left by the first use of the identifier goes with the expired
  second session.
\<close>

theorem cleanup_removes_marker_counterexample:
  "has_marker ''chk_1'' reused_store \<and>
   \<not> has_marker ''chk_1'' (apply_op (CleanupExpiredSessions 3630001) reused_store)"
  by (simp add: has_marker_def reused_store_eq cleanupExpiredSessions_def elapsed_exceeds_def
      demo_session_def)

text \<open>
  The representation invariant holds of the empty store and is kept by every operation of
  the store and by the handler, so the hypothesis of the sweep theorem holds of every
  store the code can reach.
\<close>

lemma wf_store_empty: "wf_store empty_store"
  by (simp add: wf_store_def empty_store_def)

lemma wf_updateSessionStatus:
  "wf_store st \<Longrightarrow> wf_store (updateSessionStatus now cid x p st)"
  by (simp add: wf_store_def updateSessionStatus_def distinct_update split: option.splits)

lemma wf_shouldMockPaid:
  "wf_store st \<Longrightarrow> wf_store (snd (shouldMockPaid now stamp cid created st))"
  by (simp add: wf_store_def shouldMockPaid_def distinct_update)

lemma wf_cleanup:
  "wf_store st \<Longrightarrow> wf_store (snd (cleanupExpiredSessions now st))"
  by (simp add: wf_store_def cleanupExpiredSessions_def cleanup_loop_eq distinct_map_filter)

lemma wf_apply_op: "wf_store st \<Longrightarrow> wf_store (apply_op op st)"
  by (cases op)
     (simp_all add: wf_updateSessionStatus wf_shouldMockPaid wf_cleanup,
      simp_all add: wf_store_def createSession_def deleteSession_def clearAllSessions_def
        distinct_update distinct_delete)

lemma wf_mock_fallback:
  "wf_store st \<Longrightarrow> wf_store (fst (snd (mock_fallback e k s st)))"
  by (simp add: mock_fallback_def Let_def case_prod_beta wf_updateSessionStatus
      wf_shouldMockPaid)

lemma wf_handler:
  assumes "wf_store st"
  shows "wf_store (store_after (handleVerifyStatus e k st))"
proof (cases "getSession k st")
  case None
  with assms show ?thesis by (simp add: handleVerifyStatus_def store_after_def)
next
  case (Some s)
  note fb = wf_mock_fallback [OF assms, of e k s]
  note up = wf_updateSessionStatus [OF assms]
  show ?thesis
  proof (cases "checkInvoiceStatus (net e) (verifyUrl s)")
    case (Failure f)
    with Some assms fb up show ?thesis
      by (simp add: handleVerifyStatus_def store_after_def split: option.splits)
  next
    case (Success d)
    with Some assms fb up show ?thesis
      by (simp add: handleVerifyStatus_def store_after_def Let_def split: option.splits)
  qed
qed

section \<open>Properties of address resolution\<close>

lemma split_on_nonempty: "split_on c s \<noteq> []"
  by (induction s) (auto split: list.splits)

lemma split_on_none: "c \<notin> set s \<Longrightarrow> split_on c s = [s]"
  by (induction s) auto

lemma split_on_append:
  "c \<notin> set u \<Longrightarrow> split_on c (u @ c # v) = u # split_on c v"
  by (induction u) auto

lemma length_split_on: "length (split_on c s) = Suc (count_list s c)"
  by (induction s) (auto split: list.splits simp: split_on_nonempty)

lemma split_on_one:
  assumes "split_on c s = [d]"
  shows "c \<notin> set s" and "s = d"
proof -
  from assms length_split_on [of c s] have "count_list s c = 0" by simp
  then show "c \<notin> set s" by (simp add: count_list_0_iff)
  with assms show "s = d" by (simp add: split_on_none)
qed

lemma split_on_two:
  "split_on c s = [u, d] \<Longrightarrow> s = u @ c # d \<and> c \<notin> set u \<and> c \<notin> set d"
proof (induction s arbitrary: u)
  case Nil
  then show ?case by simp
next
  case (Cons x xs)
  show ?case
  proof (cases "x = c")
    case True
    with Cons.prems have u: "u = []" and one: "split_on c xs = [d]" by simp_all
    from split_on_one [OF one] u True show ?thesis by simp
  next
    case False
    with Cons.prems obtain p where p: "split_on c xs = [p, d]" "u = x # p"
      by (auto split: list.splits)
    from Cons.IH [OF p(1)] p(2) False show ?thesis by simp
  qed
qed

lemma resolve_well_formed:
  "well_formed a user domain \<Longrightarrow>
   resolveLightningAddress a = Success (''https://'' @ domain @ ''/.well-known/lnurlp/'' @ user)"
  by (simp add: well_formed_def resolveLightningAddress_def split_on_append split_on_none)

lemma resolve_malformed:
  assumes "\<nexists>u d. well_formed a u d"
  shows "failure_code (resolveLightningAddress a) = Some ''invalid_ln_address''"
proof (cases "\<exists>u d. split_on (CHR ''@'') a = [u, d]")
  case True
  then obtain u d where ud: "split_on (CHR ''@'') a = [u, d]" by blast
  from split_on_two [OF ud] assms have "u = [] \<or> d = []"
    by (auto simp: well_formed_def)
  with ud show ?thesis by (auto simp: resolveLightningAddress_def)
next
  case False
  then show ?thesis
    by (auto simp: resolveLightningAddress_def split: list.splits)
qed

lemma malformed_count: "count_list a (CHR ''@'') \<noteq> 1 \<Longrightarrow> \<nexists>u d. well_formed a u d"
  by (auto simp: well_formed_def count_list_0_iff)

lemma malformed_no_user: "\<nexists>u d. well_formed (''@'' @ rest) u d"
  by (auto simp: well_formed_def Cons_eq_append_conv)

lemma malformed_no_domain: "\<nexists>u d. well_formed (front @ ''@'') u d"
proof
  assume "\<exists>u d. well_formed (front @ ''@'') u d"
  then obtain u d where eq: "front @ ''@'' = u @ ''@'' @ d" and d: "d \<noteq> []" "CHR ''@'' \<notin> set d"
    by (auto simp: well_formed_def)
  from eq d(1) have "last (front @ ''@'') = last d" by simp
  then have "last d = CHR ''@''" by simp
  with d show False by (metis last_in_set)
qed

text \<open>
  Claim C7, as amended. For every address \<open>user@domain\<close> with exactly one \<open>@\<close> and
  non-empty user and domain, \<open>resolveLightningAddress\<close> succeeds with
  \<^verbatim>\<open>https://domain/.well-known/lnurlp/user\<close>. An address with no \<open>@\<close>, with more than
  one, with an empty user or with an empty domain fails, and the code of the failure is
  the text \<^verbatim>\<open>invalid_ln_address\<close>; the addresses that fail are exactly those that are not
  of the form above.
\<close>

theorem resolveLightningAddress_cases:
  "(well_formed a user domain \<longrightarrow>
      resolveLightningAddress a
        = Success (''https://'' @ domain @ ''/.well-known/lnurlp/'' @ user)) \<and>
   (CHR ''@'' \<notin> set a \<longrightarrow>
      failure_code (resolveLightningAddress a) = Some ''invalid_ln_address'') \<and>
   (count_list a (CHR ''@'') > 1 \<longrightarrow>
      failure_code (resolveLightningAddress a) = Some ''invalid_ln_address'') \<and>
   failure_code (resolveLightningAddress (''@'' @ rest)) = Some ''invalid_ln_address'' \<and>
   failure_code (resolveLightningAddress (front @ ''@'')) = Some ''invalid_ln_address'' \<and>
   (is_error (resolveLightningAddress a) = (\<nexists>u d. well_formed a u d))"
proof (intro conjI impI)
  assume "well_formed a user domain"
  then show "resolveLightningAddress a
               = Success (''https://'' @ domain @ ''/.well-known/lnurlp/'' @ user)"
    by (rule resolve_well_formed)
next
  assume "CHR ''@'' \<notin> set a"
  then have "count_list a (CHR ''@'') \<noteq> 1" by (simp add: count_list_0_iff)
  then show "failure_code (resolveLightningAddress a) = Some ''invalid_ln_address''"
    by (intro resolve_malformed malformed_count)
next
  assume "count_list a (CHR ''@'') > 1"
  then have "count_list a (CHR ''@'') \<noteq> 1" by simp
  then show "failure_code (resolveLightningAddress a) = Some ''invalid_ln_address''"
    by (intro resolve_malformed malformed_count)
next
  show "failure_code (resolveLightningAddress (''@'' @ rest)) = Some ''invalid_ln_address''"
    by (intro resolve_malformed malformed_no_user)
next
  show "failure_code (resolveLightningAddress (front @ ''@'')) = Some ''invalid_ln_address''"
    by (intro resolve_malformed malformed_no_domain)
next
  show "is_error (resolveLightningAddress a) = (\<nexists>u d. well_formed a u d)"
  proof (cases "\<exists>u d. well_formed a u d")
    case True
    then obtain u d where "well_formed a u d" by blast
    from resolve_well_formed [OF this] True show ?thesis by simp
  next
    case False
    from resolve_malformed [OF False] False show ?thesis
      by (cases "resolveLightningAddress a") simp_all
  qed
qed

lemma store_address: "well_formed ''store123@bringin.app'' ''store123'' ''bringin.app''"
  by (simp add: well_formed_def)

theorem resolveLightningAddress_cases_witness:
  "resolveLightningAddress ''store123@bringin.app''
     = Success ''https://bringin.app/.well-known/lnurlp/store123'' \<and>
   failure_code (resolveLightningAddress ''store123'') = Some ''invalid_ln_address'' \<and>
   failure_code (resolveLightningAddress ''a@b@c'') = Some ''invalid_ln_address'' \<and>
   failure_code (resolveLightningAddress ''@bringin.app'') = Some ''invalid_ln_address'' \<and>
   failure_code (resolveLightningAddress ''store123@'') = Some ''invalid_ln_address''"
proof -
  have 1: "resolveLightningAddress ''store123@bringin.app''
     = Success ''https://bringin.app/.well-known/lnurlp/store123''"
    using resolveLightningAddress_cases
      [of "''store123@bringin.app''" "''store123''" "''bringin.app''"] store_address
    by simp
  have 2: "failure_code (resolveLightningAddress ''store123'') = Some ''invalid_ln_address''"
    using resolveLightningAddress_cases [of "''store123''"] by simp
  have 3: "failure_code (resolveLightningAddress ''a@b@c'') = Some ''invalid_ln_address''"
    using resolveLightningAddress_cases [of "''a@b@c''"] by simp
  have 4: "failure_code (resolveLightningAddress ''@bringin.app'') = Some ''invalid_ln_address''"
    using resolveLightningAddress_cases [of _ _ _ "''bringin.app''"] by simp
  have 5: "failure_code (resolveLightningAddress ''store123@'') = Some ''invalid_ln_address''"
    using resolveLightningAddress_cases [of _ _ _ _ "''store123''"] by simp
  from 1 2 3 4 5 show ?thesis by blast
qed

text \<open>
  Claim C7 as the specification words it names the failure code \<^verbatim>\<open>invalid_address\<close>;
  the code of the failure on an address without \<open>@\<close> is a different text.
\<close>

theorem resolveLightningAddress_code_counterexample:
  "failure_code (resolveLightningAddress ''store123'') \<noteq> Some ''invalid_address''"
  by (simp add: resolveLightningAddress_def)

section \<open>Properties of the verify URL\<close>

text \<open>
  Where the pattern occurs, \<open>replace_first\<close> replaces its first occurrence. An
  occurrence of \<^verbatim>\<open>/callback\<close> cannot straddle the end of a text in which it does not
  occur and the start of a following \<^verbatim>\<open>/callback\<close>, because the final letter of the
  pattern occurs nowhere else in it.
\<close>

lemma prefix_of_long:
  assumes "prefix p (xs @ ys)" and "length p \<le> length xs"
  shows "prefix p xs"
  using assms by (metis prefix_length_prefix prefixI)

lemma replace_first_at:
  assumes "pat \<noteq> []" and "\<not> sublist pat (a @ butlast pat)"
  shows "replace_first pat rep (a @ pat @ b) = a @ rep @ b"
  using assms(2)
proof (induction a)
  case Nil
  from assms(1) obtain c cs where "pat = c # cs" by (cases pat) auto
  then show ?case by simp
next
  case (Cons x a)
  have "\<not> prefix pat ((x # a) @ pat @ b)"
  proof
    assume p: "prefix pat ((x # a) @ pat @ b)"
    have "(x # a) @ pat @ b = ((x # a) @ butlast pat) @ (last pat # b)"
      using assms(1) by (simp add: append_butlast_last_id [symmetric] del: append_butlast_last_id)
    moreover have "length pat \<le> length ((x # a) @ butlast pat)" by simp
    ultimately have "prefix pat ((x # a) @ butlast pat)"
      using p prefix_of_long by metis
    with Cons.prems show False by blast
  qed
  moreover from Cons.prems have "\<not> sublist pat (a @ butlast pat)"
    by (auto simp: sublist_Cons_right)
  ultimately show ?case using Cons.IH by simp
qed

lemma no_straddle:
  assumes "pat \<noteq> []" and "last pat \<notin> set (butlast pat)" and "\<not> sublist pat d"
  shows "\<not> sublist pat (d @ butlast pat)"
proof
  assume "sublist pat (d @ butlast pat)"
  then obtain ps ss where "d @ butlast pat = ps @ pat @ ss"
    by (auto simp: sublist_def)
  moreover define q where "q = ps @ pat"
  ultimately have "d @ butlast pat = q @ ss" by simp
  then obtain us where "d = q @ us \<or> (d @ us = q \<and> butlast pat = us @ ss)"
    unfolding append_eq_append_conv2 by blast
  then consider "d = (ps @ pat) @ us" | "d @ us = ps @ pat" "butlast pat = us @ ss"
    unfolding q_def by blast
  then show False
  proof cases
    case 1
    then have "sublist pat d" by simp
    with assms(3) show False by simp
  next
    case 2
    show False
    proof (cases "us = []")
      case True
      with 2(1) have "d = ps @ pat" by simp
      then have "sublist pat d" by simp
      with assms(3) show False by simp
    next
      case False
      with 2(1) assms(1) have "last us = last pat"
        by (metis last_appendR)
      with False 2(2) assms(2) show False
        by (metis Un_iff last_in_set set_append)
    qed
  qed
qed

lemma rewrite_callback:
  assumes "\<not> sublist ''/callback'' dir"
  shows "replace_first ''/callback'' ''/verify'' (dir @ ''/callback'' @ rest)
           = dir @ ''/verify'' @ rest"
proof -
  have "\<not> sublist ''/callback'' (dir @ butlast ''/callback'')"
    by (rule no_straddle [OF _ _ assms]) simp_all
  then show ?thesis by (rule replace_first_at [rotated]) simp
qed

lemma part_well_formed:
  "well_formed a user domain \<Longrightarrow> part 0 a = user \<and> part 1 a = domain"
  by (simp add: well_formed_def part_def split_on_append split_on_none)

text \<open>
  Claim C6, as amended. \<open>getVerifyUrl\<close> chooses by this priority: (1) a non-empty
  \<^verbatim>\<open>verify\<close> of the response is returned as it is; (2) else, with a non-empty \<^verbatim>\<open>k1\<close>,
  the callback URL is returned with the first occurrence of \<^verbatim>\<open>/callback\<close> in its path
  replaced by \<^verbatim>\<open>/verify\<close> and \<^verbatim>\<open>k1\<close> set as a query parameter; (3) else, with a
  non-empty \<^verbatim>\<open>paymentHash\<close>, and failing that a non-empty \<^verbatim>\<open>checkingId\<close>, the URL
  \<^verbatim>\<open>https://api.domain/lnurlp/handle/verify\<close> with that value as the query parameter of
  the same name, for the domain and handle of the address; (4) else the callback URL with
  its path rewritten the same way and nothing added. The rewriting turns a path
  \<open>dir/callback...\<close> into \<open>dir/verify...\<close> when \<^verbatim>\<open>/callback\<close> does not occur in
  \<open>dir\<close>. A callback whose path has no \<^verbatim>\<open>/callback\<close> is left out: the comment
  in the source has \<^verbatim>\<open>/verify\<close> appended to such a path, and the code does not append
  it.
\<close>

theorem getVerifyUrl_priority:
  "(present (verify r) = Some v \<longrightarrow> getVerifyUrl api r cb addr = Returns v) \<and>
   (present (verify r) = None \<and> present (k1 r) = Some k \<and> new_URL api cb = Some u \<longrightarrow>
      getVerifyUrl api r cb addr =
        Returns (toString api (searchParams_set api ''k1'' k
          (set_pathname api (replace_first ''/callback'' ''/verify'' (get_pathname api u)) u)))) \<and>
   (present (verify r) = None \<and> present (k1 r) = None \<and> present (cb_paymentHash r) = Some h
      \<and> well_formed addr user domain \<longrightarrow>
      getVerifyUrl api r cb addr =
        Returns (''https://api.'' @ domain @ ''/lnurlp/'' @ user @ ''/verify?paymentHash='' @ h)) \<and>
   (present (verify r) = None \<and> present (k1 r) = None \<and> present (cb_paymentHash r) = None
      \<and> present (checkingId r) = Some c \<and> well_formed addr user domain \<longrightarrow>
      getVerifyUrl api r cb addr =
        Returns (''https://api.'' @ domain @ ''/lnurlp/'' @ user @ ''/verify?checkingId='' @ c)) \<and>
   (present (verify r) = None \<and> present (k1 r) = None \<and> present (cb_paymentHash r) = None
      \<and> present (checkingId r) = None \<and> new_URL api cb = Some u \<longrightarrow>
      getVerifyUrl api r cb addr =
        Returns (toString api
          (set_pathname api (replace_first ''/callback'' ''/verify'' (get_pathname api u)) u))) \<and>
   (\<not> sublist ''/callback'' dir \<longrightarrow>
      replace_first ''/callback'' ''/verify'' (dir @ ''/callback'' @ rest)
        = dir @ ''/verify'' @ rest)"
proof (intro conjI impI)
  assume "\<not> sublist ''/callback'' dir"
  then show "replace_first ''/callback'' ''/verify'' (dir @ ''/callback'' @ rest)
               = dir @ ''/verify'' @ rest"
    by (rule rewrite_callback)
qed (auto simp: getVerifyUrl_def Let_def dest: part_well_formed)

lemma no_callback_in_dir: "\<not> sublist ''/callback'' ''/lnurlp/store123''"
  by (simp add: sublist_Cons_right)

theorem getVerifyUrl_priority_witness:
  "getVerifyUrl (plain_urls known_callbacks)
     (bare_response\<lparr>verify := Some ''https://pay.example/v/42'', k1 := Some ''abc''\<rparr>)
     ''https://pay.example/lnurlp/store123/callback'' ''store123@bringin.app''
     = Returns ''https://pay.example/v/42'' \<and>
   getVerifyUrl (plain_urls known_callbacks)
     (bare_response\<lparr>k1 := Some ''abc'', cb_paymentHash := Some ''f00d''\<rparr>)
     ''https://pay.example/lnurlp/store123/callback'' ''store123@bringin.app''
     = Returns ''https://pay.example/lnurlp/store123/verify?k1=abc'' \<and>
   getVerifyUrl (plain_urls known_callbacks)
     (bare_response\<lparr>cb_paymentHash := Some ''f00d'', checkingId := Some ''c7''\<rparr>)
     ''https://pay.example/lnurlp/store123/callback'' ''store123@bringin.app''
     = Returns ''https://api.bringin.app/lnurlp/store123/verify?paymentHash=f00d'' \<and>
   getVerifyUrl (plain_urls known_callbacks) (bare_response\<lparr>checkingId := Some ''c7''\<rparr>)
     ''https://pay.example/lnurlp/store123/callback'' ''store123@bringin.app''
     = Returns ''https://api.bringin.app/lnurlp/store123/verify?checkingId=c7'' \<and>
   getVerifyUrl (plain_urls known_callbacks) bare_response
     ''https://pay.example/lnurlp/store123/callback'' ''store123@bringin.app''
     = Returns ''https://pay.example/lnurlp/store123/verify''"
proof -
  let ?api = "plain_urls known_callbacks"
  let ?cb = "''https://pay.example/lnurlp/store123/callback''"
  let ?u = "\<lparr>origin = ''https://pay.example'', path = ''/lnurlp/store123/callback'', query = []\<rparr>"
  have u: "new_URL ?api ?cb = Some ?u"
    by (simp add: plain_urls_def known_callbacks_def)
  have rw: "replace_first ''/callback'' ''/verify'' (''/lnurlp/store123'' @ ''/callback'' @ [])
              = ''/lnurlp/store123'' @ ''/verify'' @ []"
    using getVerifyUrl_priority [of bare_response _ ?api ?cb _ _ _ _ _ _ _ "''/lnurlp/store123''" "[]"]
      no_callback_in_dir by blast
  have 1: "getVerifyUrl ?api
      (bare_response\<lparr>verify := Some ''https://pay.example/v/42'', k1 := Some ''abc''\<rparr>)
      ?cb ''store123@bringin.app'' = Returns ''https://pay.example/v/42''"
    using getVerifyUrl_priority
      [of "bare_response\<lparr>verify := Some ''https://pay.example/v/42'', k1 := Some ''abc''\<rparr>"
          "''https://pay.example/v/42''" ?api ?cb "''store123@bringin.app''"]
    by (simp add: bare_response_def)
  have 2: "getVerifyUrl ?api (bare_response\<lparr>k1 := Some ''abc'', cb_paymentHash := Some ''f00d''\<rparr>)
      ?cb ''store123@bringin.app'' = Returns ''https://pay.example/lnurlp/store123/verify?k1=abc''"
    using getVerifyUrl_priority
      [of "bare_response\<lparr>k1 := Some ''abc'', cb_paymentHash := Some ''f00d''\<rparr>" _ ?api ?cb
          "''store123@bringin.app''" "''abc''" ?u] u rw
    by (simp add: bare_response_def plain_urls_def plain_href_def)
  have 3: "getVerifyUrl ?api (bare_response\<lparr>cb_paymentHash := Some ''f00d'', checkingId := Some ''c7''\<rparr>)
      ?cb ''store123@bringin.app''
      = Returns ''https://api.bringin.app/lnurlp/store123/verify?paymentHash=f00d''"
    using getVerifyUrl_priority
      [of "bare_response\<lparr>cb_paymentHash := Some ''f00d'', checkingId := Some ''c7''\<rparr>" _ ?api ?cb
          "''store123@bringin.app''" _ _ "''f00d''" "''store123''" "''bringin.app''"]
      store_address
    by (simp add: bare_response_def)
  have 4: "getVerifyUrl ?api (bare_response\<lparr>checkingId := Some ''c7''\<rparr>)
      ?cb ''store123@bringin.app''
      = Returns ''https://api.bringin.app/lnurlp/store123/verify?checkingId=c7''"
    using getVerifyUrl_priority
      [of "bare_response\<lparr>checkingId := Some ''c7''\<rparr>" _ ?api ?cb
          "''store123@bringin.app''" _ _ _ "''store123''" "''bringin.app''" "''c7''"]
      store_address
    by (simp add: bare_response_def)
  have 5: "getVerifyUrl ?api bare_response ?cb ''store123@bringin.app''
      = Returns ''https://pay.example/lnurlp/store123/verify''"
    using getVerifyUrl_priority
      [of bare_response _ ?api ?cb "''store123@bringin.app''" _ ?u] u rw
    by (simp add: bare_response_def plain_urls_def plain_href_def)
  from 1 2 3 4 5 show ?thesis by blast
qed

text \<open>
  Claim C6 as the specification words it has the final path segment \<open>callback\<close>
  rewritten. For the callback \<^verbatim>\<open>https://pay.example/callback/v1/callback\<close> and a
  \<^verbatim>\<open>k1\<close> token the final segment stays and the first one is rewritten.
\<close>

theorem first_callback_rewritten_counterexample:
  "getVerifyUrl (plain_urls known_callbacks) (bare_response\<lparr>k1 := Some ''abc''\<rparr>)
     ''https://pay.example/callback/v1/callback'' ''store123@bringin.app''
     = Returns ''https://pay.example/verify/v1/callback?k1=abc'' \<and>
   getVerifyUrl (plain_urls known_callbacks) (bare_response\<lparr>k1 := Some ''abc''\<rparr>)
     ''https://pay.example/callback/v1/callback'' ''store123@bringin.app''
     \<noteq> Returns ''https://pay.example/callback/v1/verify?k1=abc''"
  by (simp add: getVerifyUrl_def bare_response_def plain_urls_def known_callbacks_def
      plain_href_def Let_def)

end
